theory Spec2Isabelle
  imports Complex_Main "HOL-Library.Word" "HOL-Library.Log_Nat"
begin

unbundle bit_operations_syntax

section \<open>The server pool of the light client (les/serverpool.go)\<close>

text \<open>
  Conventions of the embedding.
  \<^item> \<open>uint64\<close> is \<open>64 word\<close>, compared with \<open><\<close> and \<open>\<le>\<close>. \<open>int64\<close>, \<open>time.Duration\<close>,
    \<open>mclock.AbsTime\<close> and \<open>utils.Fixed64\<close> are \<open>64 word\<close> too, read in two's complement:
    they are compared with \<open><s\<close> and \<open>\<le>s\<close>, and \<open>+\<close>, \<open>-\<close>, \<open>*\<close> wrap around as in Go.
    Durations and times count nanoseconds.
  \<^item> A \<open>float64\<close> is the real number it denotes. An arithmetic operation of
    \<open>calculateNode\<close> on \<open>float64\<close> is the exact operation followed by \<open>round64\<close>, the
    rounding to the nearest \<open>float64\<close> with ties to the even significand; so is the
    conversion of an integer to \<open>float64\<close>. The infinities, NaN and the sign of zero are
    not represented: a result beyond the largest \<open>float64\<close> is rounded as if the exponent
    had no upper limit. The one division whose divisor can be zero, \<open>a / b\<close> in
    \<open>calculateNode\<close>, is reached only with \<open>a < 0\<close>; Go yields \<open>-Inf\<close> there and HOL yields
    \<open>0\<close>, and the clamp that follows replaces either by \<open>1\<close>.
  \<^item> The codec of \<open>nodeHistory\<close> multiplies and divides by 256 and converts the truncated
    product back: on a \<open>float64\<close> these steps are exact, and they are written without
    \<open>round64\<close>.
  \<^item> A conversion from \<open>float64\<close> to an integer type discards the fraction. Where the
    truncated value is not representable, Go leaves the result to the implementation;
    the embedding takes that result from the parameters \<open>uint64_oor\<close> and \<open>int64_oor\<close>.
  \<^item> A node (\<open>*enode.Node\<close>, \<open>*serverPeer\<close>) is represented by its identity \<open>'id\<close>.
  \<^item> One call reads one clock value: \<open>clockNow\<close> is the reading of \<open>s.clock.Now()\<close>.
\<close>

type_synonym uint64 = "64 word"
type_synonym int64 = "64 word"
type_synonym float64 = real

subsection \<open>Constants (serverpool.go, lines 37 to 46)\<close>

definition millisecond :: int64 where "millisecond = 1000000"
definition second :: int64 where "second = 1000000000"

definition minTimeout :: int64 where "minTimeout = millisecond * 500"
definition timeoutRefresh :: int64 where "timeoutRefresh = second * 5"
definition timeoutChangeThreshold :: int64 where "timeoutChangeThreshold = millisecond * 10"
definition dialCost :: nat where "dialCost = 10000"
definition nodeWeightMul :: nat where "nodeWeightMul = 1000000"
definition nodeWeightThreshold :: nat where "nodeWeightThreshold = 100"
definition redialWaitStep :: nat where "redialWaitStep = 2"
definition minRedialWait :: int64 where "minRedialWait = second * 10"

subsection \<open>Conversions between numeric types\<close>

definition truncToZero :: "real \<Rightarrow> int" where
  "truncToZero x = (if 0 \<le> x then \<lfloor>x\<rfloor> else \<lceil>x\<rceil>)"

text \<open>
  Rounding to \<open>float64\<close>. \<open>roundEven\<close> is the nearest integer, the even one of two that are
  equally near. A \<open>float64\<close> is a multiple of \<open>2 ^ k / 2 ^ 1074\<close> with a significand below
  \<open>2 ^ 53\<close>: \<open>k\<close> is 0 for the subnormal numbers and the first binade, and grows by one
  with each binade.
\<close>

definition roundEven :: "real \<Rightarrow> int" where
  "roundEven y =
     (let f = \<lfloor>y\<rfloor>; d = y - of_int f
      in if d < 1 / 2 then f else if 1 / 2 < d then f + 1 else if even f then f else f + 1)"

definition binadeShift :: "real \<Rightarrow> nat" where
  "binadeShift X = nat (bitlen \<lfloor>\<bar>X\<bar>\<rfloor> - 53)"

definition round64 :: "real \<Rightarrow> float64" where
  "round64 x =
     (let X = x * 2 ^ 1074; k = binadeShift X
      in of_int (roundEven (X / 2 ^ k)) * 2 ^ k / 2 ^ 1074)"

text \<open>The value of an integer; the conversion to \<open>float64\<close> rounds it.\<close>

definition float64_of_uint64 :: "uint64 \<Rightarrow> float64" where
  "float64_of_uint64 w = real (unat w)"

definition float64_of_int64 :: "int64 \<Rightarrow> float64" where
  "float64_of_int64 w = real_of_int (sint w)"

definition uint64_of_float64 :: "(real \<Rightarrow> uint64) \<Rightarrow> float64 \<Rightarrow> uint64" where
  "uint64_of_float64 oor x =
     (if 0 \<le> truncToZero x \<and> truncToZero x < 2 ^ 64 then word_of_int (truncToZero x) else oor x)"

definition int64_of_float64 :: "(real \<Rightarrow> int64) \<Rightarrow> float64 \<Rightarrow> int64" where
  "int64_of_float64 oor x =
     (if - (2 ^ 63) \<le> truncToZero x \<and> truncToZero x < 2 ^ 63 then word_of_int (truncToZero x) else oor x)"

subsection \<open>Data\<close>

text \<open>
  \<open>utils.ExpiredValue\<close> is declared outside this file; it is the pair of \<open>uint64\<close>
  fields that \<open>nodeHistoryEnc\<close> serialises.
\<close>

record ExpiredValue =
  Base :: uint64
  Exp :: uint64

record nodeHistory =
  nh_dialCost :: ExpiredValue
  waitUntil :: int64
  lastTimeout :: int64
  totalValue :: float64
  waitFactor :: float64

definition zeroNodeHistory :: nodeHistory where
  "zeroNodeHistory =
     \<lparr>nh_dialCost = \<lparr>Base = 0, Exp = 0\<rparr>, waitUntil = 0, lastTimeout = 0,
      totalValue = 0, waitFactor = 0\<rparr>"

record nodeHistoryEnc =
  DialCost :: ExpiredValue
  WaitFactor :: uint64
  WaitUntil :: uint64

text \<open>The dynamic values a node field holds (\<open>interface{}\<close> in the source).\<close>

datatype 'st fieldValue =
    FNodeHistory nodeHistory
  | FRtStats 'st
  | FUint64 uint64
  | FString string

subsection \<open>Collaborators that are not part of serverpool.go\<close>

text \<open>
  What the pool reads from \<open>lpc.ValueTracker\<close>: the global statistics (\<open>vt.RtStats()\<close>),
  the expiration factor (\<open>vt.StatsExpFactor()\<close>), the statistics of a node
  (\<open>vt.GetNode(id)\<close>, \<open>None\<close> for \<open>nil\<close>, then \<open>nvt.RtStats()\<close>) and the log offset at
  a time (\<open>vt.StatsExpirer().LogOffset(now)\<close>).
\<close>

record ('id, 'st, 'ef) valueTracker =
  vtRtStats :: 'st
  vtStatsExpFactor :: 'ef
  vtGetNode :: "'id \<Rightarrow> 'st option"
  vtLogOffset :: "int64 \<Rightarrow> int64"

text \<open>
  The response-time statistics (\<open>lpc.ResponseTimeStats\<close>, type \<open>'st\<close>), the time weights
  (\<open>lpc.ResponseTimeWeights\<close>, type \<open>'w\<close>), the expiration factor
  (\<open>utils.ExpirationFactor\<close>, type \<open>'ef\<close>) and the methods of \<open>utils.ExpiredValue\<close> are
  parameters of the embedding, collected in one record.
\<close>

record ('id, 'st, 'w, 'ef) library =
  rtValue :: "'st \<Rightarrow> 'w \<Rightarrow> 'ef \<Rightarrow> float64"
  rtSubStats :: "'st \<Rightarrow> 'st \<Rightarrow> 'st"
  rtAdd :: "'st \<Rightarrow> int64 \<Rightarrow> float64 \<Rightarrow> 'ef \<Rightarrow> 'st"
  rtTimeout :: "'st \<Rightarrow> float64 \<Rightarrow> int64"
  TimeoutWeights :: "int64 \<Rightarrow> 'w"
  evAdd :: "ExpiredValue \<Rightarrow> int64 \<Rightarrow> int64 \<Rightarrow> ExpiredValue"
  evValue :: "ExpiredValue \<Rightarrow> int64 \<Rightarrow> uint64"
  uint64_oor :: "real \<Rightarrow> uint64"
  int64_oor :: "real \<Rightarrow> int64"
  vtUnregister :: "('id, 'st, 'ef) valueTracker \<Rightarrow> 'id \<Rightarrow> ('id, 'st, 'ef) valueTracker"

subsection \<open>The node state machine\<close>

text \<open>
  Modelled from the spec: \<open>utils.NodeStateMachine\<close> (its implementation is not among the
  sources; serverpool.go calls it and the state machine's test file exercises it).
  Section 4.1 of the specification: a tracked node has a state bitmask and fields by
  index; \<open>GetField\<close> returns the value or nil when it is unset or the node is not
  tracked; \<open>SetField\<close> on a node without a flag bit is discarded, and setting nil clears
  the field; \<open>SetState\<close> clears the reset mask and sets the set mask atomically, cancels
  the pending timers of the bits it touches, schedules a timer for the bits it sets when
  the timeout is positive, has no effect when the state does not change, and drops the
  node when its last flag is cleared; \<open>Persist\<close> marks the node dirty.
\<close>

record 'st nodeInfo =
  state :: uint64
  nodeFields :: "nat \<Rightarrow> 'st fieldValue option"

record 'id timeoutEntry =
  toNode :: 'id
  toMask :: uint64
  toAt :: int64

record ('id, 'st) NodeStateMachine =
  nodes :: "'id \<Rightarrow> 'st nodeInfo option"
  timeouts :: "'id timeoutEntry list"
  dirty :: "'id set"

definition nodeState :: "('id, 'st) NodeStateMachine \<Rightarrow> 'id \<Rightarrow> uint64" where
  "nodeState m node = (case nodes m node of None \<Rightarrow> 0 | Some ni \<Rightarrow> state ni)"

definition GetField :: "('id, 'st) NodeStateMachine \<Rightarrow> 'id \<Rightarrow> nat \<Rightarrow> 'st fieldValue option" where
  "GetField m node idx = (case nodes m node of None \<Rightarrow> None | Some ni \<Rightarrow> nodeFields ni idx)"

definition SetField ::
  "('id, 'st) NodeStateMachine \<Rightarrow> 'id \<Rightarrow> nat \<Rightarrow> 'st fieldValue option \<Rightarrow> ('id, 'st) NodeStateMachine" where
  "SetField m node idx v =
     (case nodes m node of
        None \<Rightarrow> m
      | Some ni \<Rightarrow>
          if state ni = 0 then m
          else m\<lparr>nodes := (nodes m)(node \<mapsto> ni\<lparr>nodeFields := (nodeFields ni)(idx := v)\<rparr>)\<rparr>)"

definition Persist :: "('id, 'st) NodeStateMachine \<Rightarrow> 'id \<Rightarrow> ('id, 'st) NodeStateMachine" where
  "Persist m node = m\<lparr>dirty := insert node (dirty m)\<rparr>"

text \<open>
  \<open>removeTimeouts\<close> takes the bits of a mask out of the pending timers of a node and
  drops the timers left without a bit.
\<close>

definition removeTimeouts ::
  "'id timeoutEntry list \<Rightarrow> 'id \<Rightarrow> uint64 \<Rightarrow> 'id timeoutEntry list" where
  "removeTimeouts ts node bits =
     filter (\<lambda>t. toMask t \<noteq> 0)
       (map (\<lambda>t. if toNode t = node then t\<lparr>toMask := toMask t AND NOT bits\<rparr> else t) ts)"

definition SetState ::
  "('id, 'st) NodeStateMachine \<Rightarrow> int64 \<Rightarrow> 'id \<Rightarrow> uint64 \<Rightarrow> uint64 \<Rightarrow> int64
     \<Rightarrow> ('id, 'st) NodeStateMachine" where
  "SetState m now node setMask resetMask tmo =
     (let oldState = nodeState m node;
          newState = (oldState AND NOT resetMask) OR setMask
      in if newState = oldState then m
         else
           let ts = removeTimeouts (timeouts m) node (setMask OR resetMask);
               ts1 = (if 0 <s tmo
                      then ts @ [\<lparr>toNode = node, toMask = setMask, toAt = now + tmo\<rparr>] else ts);
               fs = (case nodes m node of None \<Rightarrow> (\<lambda>i. None) | Some ni \<Rightarrow> nodeFields ni)
           in m\<lparr>nodes := (if newState = 0 then (nodes m)(node := None)
                           else (nodes m)(node \<mapsto> \<lparr>state = newState, nodeFields = fs\<rparr>)),
                timeouts := ts1\<rparr>)"

subsection \<open>The pool\<close>

record ('id, 'st, 'w, 'ef) serverPool =
  clockNow :: int64
  clockOffset :: int64
  ns :: "('id, 'st) NodeStateMachine"
  vt :: "('id, 'st, 'ef) valueTracker"
  stDialed :: uint64
  stConnected :: uint64
  stRedialWait :: uint64
  stHasValue :: uint64
  stAlwaysConnect :: uint64
  nodeHistoryField :: nat
  connStatsField :: nat
  timeout :: int64
  timeWeights :: 'w
  timeoutRefreshed :: int64

subsection \<open>getTimeout (lines 285 to 311)\<close>

text \<open>The statistics the timeout is derived from: the global ones with ten 2 s samples added.\<close>

definition timeoutStats :: "('id, 'st, 'w, 'ef) library \<Rightarrow> ('id, 'st, 'w, 'ef) serverPool \<Rightarrow> 'st" where
  "timeoutStats L s = rtAdd L (vtRtStats (vt s)) (second * 2) 10 (vtStatsExpFactor (vt s))"

definition getTimeout ::
  "('id, 'st, 'w, 'ef) library \<Rightarrow> ('id, 'st, 'w, 'ef) serverPool \<Rightarrow> int64 \<times> ('id, 'st, 'w, 'ef) serverPool" where
  "getTimeout L s =
     (let now = clockNow s;
          refreshed = timeoutRefreshed s
      in if refreshed \<noteq> 0 \<and> now - refreshed <s timeoutRefresh then (timeout s, s)
         else
           let rts = timeoutStats L s;
               t0 = minTimeout;
               t1 = (if t0 <s rtTimeout L rts (1 / 10) then rtTimeout L rts (1 / 10) else t0);
               t2 = (if t1 <s rtTimeout L rts (1 / 2) * 2 then rtTimeout L rts (1 / 2) * 2 else t1);
               s1 = (if timeout s \<noteq> t2
                     then s\<lparr>timeout := t2, timeWeights := TimeoutWeights L t2\<rparr> else s)
           in (t2, s1\<lparr>timeoutRefreshed := now\<rparr>))"

subsection \<open>calculateNode (lines 314 to 384)\<close>

text \<open>Line 316: a missing field or one of another type reads as the zero record.\<close>

definition readNodeHistory :: "('id, 'st, 'w, 'ef) serverPool \<Rightarrow> 'id \<Rightarrow> nodeHistory" where
  "readNodeHistory s node =
     (case GetField (ns s) node (nodeHistoryField s) of
        Some (FNodeHistory n) \<Rightarrow> n
      | _ \<Rightarrow> zeroNodeHistory)"

text \<open>Lines 328 to 337: the value of the session that just ended.\<close>

definition sessionValue ::
  "('id, 'st, 'w, 'ef) library \<Rightarrow> ('id, 'st, 'w, 'ef) serverPool \<Rightarrow> 'id \<Rightarrow> 'st \<Rightarrow> bool \<Rightarrow> float64" where
  "sessionValue L s node currentStats remoteDisconnect =
     (if remoteDisconnect then
        (case GetField (ns s) node (connStatsField s) of
           Some (FRtStats connStats) \<Rightarrow>
             rtValue L (rtSubStats L currentStats connStats) (timeWeights s) (vtStatsExpFactor (vt s))
         | _ \<Rightarrow> 0)
      else 0)"

text \<open>Lines 339 to 342: the dial cost of this attempt is added.\<close>

definition chargeDial ::
  "('id, 'st, 'w, 'ef) library \<Rightarrow> int64 \<Rightarrow> bool \<Rightarrow> nodeHistory \<Rightarrow> nodeHistory" where
  "chargeDial L logOffset charged n =
     (if charged then n\<lparr>nh_dialCost := evAdd L (nh_dialCost n) (of_nat dialCost) logOffset\<rparr> else n)"

text \<open>Lines 343 to 347: the decayed dial cost, not below \<open>dialCost\<close>.\<close>

definition totalDialCostOf :: "('id, 'st, 'w, 'ef) library \<Rightarrow> int64 \<Rightarrow> nodeHistory \<Rightarrow> uint64" where
  "totalDialCostOf L logOffset n =
     (let totalDialCost = evValue L (nh_dialCost n) logOffset
      in if totalDialCost < of_nat dialCost then of_nat dialCost else totalDialCost)"

text \<open>Lines 349 to 355: the total value is recomputed when the timeout has moved.\<close>

definition timeoutChanged :: "int64 \<Rightarrow> int64 \<Rightarrow> bool" where
  "timeoutChanged tmo prev =
     (tmo <s prev - timeoutChangeThreshold \<or> prev + timeoutChangeThreshold <s tmo)"

definition refreshTotalValue ::
  "('id, 'st, 'w, 'ef) library \<Rightarrow> 'w \<Rightarrow> 'ef \<Rightarrow> 'st \<Rightarrow> bool \<Rightarrow> int64 \<Rightarrow> nodeHistory
     \<Rightarrow> nodeHistory \<times> bool" where
  "refreshTotalValue L weights expFactor currentStats remoteDisconnect tmo n =
     (if remoteDisconnect \<or> timeoutChanged tmo (lastTimeout n)
      then (n\<lparr>totalValue := rtValue L currentStats weights expFactor, lastTimeout := tmo\<rparr>, True)
      else (n, False))"

text \<open>Lines 357 to 375: the redial backoff; returns the record and the wait.\<close>

definition nextWaitFactor :: "float64 \<Rightarrow> float64 \<Rightarrow> float64 \<Rightarrow> float64" where
  "nextWaitFactor a b fac =
     (let w1 = (if fac < 1 then 1 else fac);
          w2 = round64 (w1 * real redialWaitStep);
          w3 = (if a < round64 (b * w2) then round64 (a / b) else w2)
      in if w3 < 1 then 1 else w3)"

definition updateRedialWait ::
  "('id, 'st, 'w, 'ef) library \<Rightarrow> int64 \<Rightarrow> uint64 \<Rightarrow> float64 \<Rightarrow> nodeHistory \<Rightarrow> nodeHistory \<times> int64" where
  "updateRedialWait L nowOffs totalDialCost currentValue n =
     (let a = round64 (totalValue n * real dialCost);
          b = round64 (round64 (float64_of_uint64 totalDialCost) * currentValue);
          fac = nextWaitFactor a b (waitFactor n);
          wait = int64_of_float64 (int64_oor L)
                   (round64 (round64 (float64_of_int64 minRedialWait) * fac))
      in (n\<lparr>waitFactor := fac, waitUntil := nowOffs + wait\<rparr>, wait))"

text \<open>Line 383: the weight.\<close>

definition nodeWeight :: "('id, 'st, 'w, 'ef) library \<Rightarrow> nodeHistory \<Rightarrow> uint64 \<Rightarrow> uint64" where
  "nodeWeight L n totalDialCost =
     uint64_of_float64 (uint64_oor L)
       (round64 (round64 (totalValue n * real nodeWeightMul)
                   / round64 (float64_of_uint64 totalDialCost)))"

definition calculateNode ::
  "('id, 'st, 'w, 'ef) library \<Rightarrow> ('id, 'st, 'w, 'ef) serverPool \<Rightarrow> 'id \<Rightarrow> bool \<Rightarrow> bool
     \<Rightarrow> (uint64 \<times> int64) \<times> ('id, 'st, 'w, 'ef) serverPool" where
  "calculateNode L s node failedConnection remoteDisconnect =
     (let n0 = readNodeHistory s node
      in case vtGetNode (vt s) node of
           None \<Rightarrow> ((0, 0), s)
         | Some currentStats \<Rightarrow>
             let weights = timeWeights s;
                 expFactor = vtStatsExpFactor (vt s);
                 currentValue = sessionValue L s node currentStats remoteDisconnect;
                 logOffset = vtLogOffset (vt s) (clockNow s);
                 n1 = chargeDial L logOffset (failedConnection \<or> remoteDisconnect) n0;
                 totalDialCost = totalDialCostOf L logOffset n1;
                 (tmo, s1) = getTimeout L s;
                 (n2, storeField) =
                   refreshTotalValue L weights expFactor currentStats remoteDisconnect tmo n1;
                 (n3, wait) =
                   (if failedConnection \<or> remoteDisconnect
                    then updateRedialWait L (clockNow s1 + clockOffset s1) totalDialCost
                           currentValue n2
                    else (n2, 0));
                 s2 = (if storeField \<or> failedConnection \<or> remoteDisconnect
                       then s1\<lparr>ns := SetField (ns s1) node (nodeHistoryField s1)
                                         (Some (FNodeHistory n3))\<rparr>
                       else s1)
             in ((nodeWeight L n3 totalDialCost, wait), s2))"

subsection \<open>The state subscription of newServerPool (lines 192 to 198)\<close>

text \<open>
  The handler the pool subscribes for the mask \<open>stDialed | stConnected\<close>. Its own
  \<open>SetState\<close> changes \<open>stRedialWait\<close> only, a bit outside that mask.
\<close>

definition dialTimeoutHandler ::
  "('id, 'st, 'w, 'ef) library \<Rightarrow> ('id, 'st, 'w, 'ef) serverPool \<Rightarrow> 'id \<Rightarrow> uint64 \<Rightarrow> uint64
     \<Rightarrow> ('id, 'st, 'w, 'ef) serverPool" where
  "dialTimeoutHandler L s n oldState newState =
     (if oldState = stDialed s \<and> newState = 0 then
        (let ((wt, wait), s1) = calculateNode L s n True False
         in s1\<lparr>ns := SetState (ns s1) (clockNow s1) n (stRedialWait s1) 0 wait\<rparr>)
      else s)"

text \<open>
  \<open>s.ns.SetState\<close> as the pool sees it: the transition, then the handler when a bit of
  its mask has changed. The handler receives both states restricted to its mask, as
  \<open>TestSetState\<close> of the state machine's test file shows. The subscriptions of the
  selectors are outside serverpool.go; they react to a node that is selected, which a
  dialed or connected node is not, and are left out here (\<open>SetStateSel\<close> below has them).
\<close>

definition SetStateSub ::
  "('id, 'st, 'w, 'ef) library \<Rightarrow> ('id, 'st, 'w, 'ef) serverPool \<Rightarrow> 'id \<Rightarrow> uint64 \<Rightarrow> uint64 \<Rightarrow> int64
     \<Rightarrow> ('id, 'st, 'w, 'ef) serverPool" where
  "SetStateSub L s node setMask resetMask tmo =
     (let oldState = nodeState (ns s) node;
          s1 = s\<lparr>ns := SetState (ns s) (clockNow s) node setMask resetMask tmo\<rparr>;
          newState = nodeState (ns s1) node;
          subMask = stDialed s OR stConnected s
      in if (oldState XOR newState) AND subMask \<noteq> 0
         then dialTimeoutHandler L s1 node (oldState AND subMask) (newState AND subMask)
         else s1)"

subsection \<open>unregisterPeer (lines 270 to 280)\<close>

text \<open>
  The peer is represented by its node identity; \<open>p.setValueTracker(nil, nil)\<close> changes
  the peer object only and has no counterpart in the pool.
\<close>

definition unregisterPeer ::
  "('id, 'st, 'w, 'ef) library \<Rightarrow> ('id, 'st, 'w, 'ef) serverPool \<Rightarrow> 'id
     \<Rightarrow> ('id, 'st, 'w, 'ef) serverPool" where
  "unregisterPeer L s p =
     (let ((wt, wait), s1) = calculateNode L s p False True;
          s2 = s1\<lparr>ns := SetField (ns s1) p (connStatsField s1) None\<rparr>;
          s3 = SetStateSub L s2 p (stRedialWait s2) (stConnected s2) wait;
          s4 = (if of_nat nodeWeightThreshold \<le> wt
                then (let s' = SetStateSub L s3 p (stHasValue s3) 0 0
                      in s'\<lparr>ns := Persist (ns s') p\<rparr>)
                else s3)
      in s4\<lparr>vt := vtUnregister L (vt s4) p\<rparr>)"

subsection \<open>The persistent field nodeHistory (lines 100 to 126)\<close>

datatype error = errInvalidField | errRlp

text \<open>
  \<open>rlp.EncodeToBytes\<close> and \<open>rlp.DecodeBytes\<close> at the type \<open>nodeHistoryEnc\<close> are
  parameters. The decoder of the source builds its result from whatever
  \<open>rlp.DecodeBytes\<close> left in \<open>ne\<close> and passes the error on, so the parameter returns
  both.
\<close>

record rlpCodec =
  EncodeToBytes :: "nodeHistoryEnc \<Rightarrow> error + 8 word list"
  DecodeBytes :: "8 word list \<Rightarrow> nodeHistoryEnc \<times> error option"

definition toEnc :: "('id, 'st, 'w, 'ef) library \<Rightarrow> nodeHistory \<Rightarrow> nodeHistoryEnc" where
  "toEnc L n =
     \<lparr>DialCost = nh_dialCost n,
      WaitFactor = uint64_of_float64 (uint64_oor L) (waitFactor n * 256),
      WaitUntil = waitUntil n\<rparr>"

definition fromEnc :: "nodeHistoryEnc \<Rightarrow> nodeHistory" where
  "fromEnc ne =
     \<lparr>nh_dialCost = DialCost ne, waitUntil = WaitUntil ne, lastTimeout = 0, totalValue = 0,
      waitFactor = float64_of_uint64 (WaitFactor ne) / 256\<rparr>"

definition nodeHistoryEncoder ::
  "rlpCodec \<Rightarrow> ('id, 'st, 'w, 'ef) library \<Rightarrow> 'st fieldValue \<Rightarrow> error + 8 word list" where
  "nodeHistoryEncoder R L field =
     (case field of FNodeHistory n \<Rightarrow> EncodeToBytes R (toEnc L n) | _ \<Rightarrow> Inl errInvalidField)"

definition nodeHistoryDecoder :: "rlpCodec \<Rightarrow> 8 word list \<Rightarrow> 'st fieldValue \<times> error option" where
  "nodeHistoryDecoder R enc =
     (let (ne, err) = DecodeBytes R enc in (FNodeHistory (fromEnc ne), err))"

subsection \<open>Persistence of the node state machine\<close>

text \<open>
  Modelled from the spec: \<open>Start\<close> and \<open>Stop\<close> of \<open>utils.NodeStateMachine\<close> and its
  stored records (the implementation is not among the sources; the test file and
  serverpool.go give the definitions of flags and fields that it is used with).
  Sections 3, 4.1 and 8 of the specification: a flag has a name and a persistent bit, a
  persistent field has an encoder and a decoder; registration assigns bit and field
  indices in the order of the setup; the stored record of a node holds its persistent
  flags, without those under a pending timeout, and its field encodings keyed by name;
  on load the names are resolved to the current indices, encodings of unknown names are
  kept, and a record with a field that does not decode is treated as absent. \<open>Stop\<close>
  writes the tracked nodes that have something to save; \<open>Start\<close> loads the stored ones.
\<close>

record flagDefinition =
  flagName :: string
  flagPersistent :: bool

type_synonym 'st fieldCodec =
  "('st fieldValue \<Rightarrow> error + 8 word list) \<times> (8 word list \<Rightarrow> 'st fieldValue \<times> error option)"

record 'st fieldDefinition =
  fieldName :: string
  fieldCodec :: "'st fieldCodec option"

record 'st Setup =
  Flags :: "flagDefinition list"
  Fields :: "'st fieldDefinition list"

definition NewFlag :: "string \<Rightarrow> flagDefinition" where
  "NewFlag name = \<lparr>flagName = name, flagPersistent = False\<rparr>"

definition NewPersistentFlag :: "string \<Rightarrow> flagDefinition" where
  "NewPersistentFlag name = \<lparr>flagName = name, flagPersistent = True\<rparr>"

definition NewField :: "string \<Rightarrow> 'st fieldDefinition" where
  "NewField name = \<lparr>fieldName = name, fieldCodec = None\<rparr>"

definition NewPersistentField ::
  "string \<Rightarrow> ('st fieldValue \<Rightarrow> error + 8 word list)
     \<Rightarrow> (8 word list \<Rightarrow> 'st fieldValue \<times> error option) \<Rightarrow> 'st fieldDefinition" where
  "NewPersistentField name enc dec = \<lparr>fieldName = name, fieldCodec = Some (enc, dec)\<rparr>"

record savedNode =
  savedFlags :: "string list"
  savedFields :: "(string \<times> 8 word list) list"

text \<open>The bits of a node that are under a pending timeout.\<close>

fun timedBits :: "'id timeoutEntry list \<Rightarrow> 'id \<Rightarrow> uint64" where
  "timedBits [] node = 0"
| "timedBits (t # ts) node =
     (if toNode t = node then toMask t OR timedBits ts node else timedBits ts node)"

text \<open>Saving: flag \<open>i\<close> of the setup is bit \<open>i\<close> of the state, field \<open>i\<close> is field index \<open>i\<close>.\<close>

fun savedFlagNames :: "flagDefinition list \<Rightarrow> nat \<Rightarrow> uint64 \<Rightarrow> uint64 \<Rightarrow> string list" where
  "savedFlagNames [] i st timed = []"
| "savedFlagNames (f # fs) i st timed =
     (if flagPersistent f \<and> bit st i \<and> \<not> bit timed i then [flagName f] else [])
       @ savedFlagNames fs (Suc i) st timed"

fun saveFields ::
  "'st fieldDefinition list \<Rightarrow> nat \<Rightarrow> (nat \<Rightarrow> 'st fieldValue option)
     \<Rightarrow> (string \<times> 8 word list) list" where
  "saveFields [] i vals = []"
| "saveFields (d # ds) i vals =
     (case fieldCodec d of
        None \<Rightarrow> []
      | Some (enc, dec) \<Rightarrow>
          (case vals i of
             None \<Rightarrow> []
           | Some v \<Rightarrow> (case enc v of Inl e \<Rightarrow> [] | Inr bs \<Rightarrow> [(fieldName d, bs)])))
       @ saveFields ds (Suc i) vals"

definition saveNode ::
  "'st Setup \<Rightarrow> uint64 \<Rightarrow> (string \<times> 8 word list) list \<Rightarrow> 'st nodeInfo \<Rightarrow> savedNode" where
  "saveNode S timed prev ni =
     \<lparr>savedFlags = savedFlagNames (Flags S) 0 (state ni) timed,
      savedFields = saveFields (Fields S) 0 (nodeFields ni)
                      @ filter (\<lambda>e. fst e \<notin> set (map fieldName (Fields S))) prev\<rparr>"

definition Stop ::
  "'st Setup \<Rightarrow> ('id, 'st) NodeStateMachine \<Rightarrow> ('id \<Rightarrow> savedNode option)
     \<Rightarrow> ('id \<Rightarrow> savedNode option)" where
  "Stop S m db =
     (\<lambda>node. case nodes m node of
        None \<Rightarrow> db node
      | Some ni \<Rightarrow>
          (let r = saveNode S (timedBits (timeouts m) node)
                     (case db node of None \<Rightarrow> [] | Some r0 \<Rightarrow> savedFields r0) ni
           in if savedFlags r = [] \<and> savedFields r = [] then None else Some r))"

text \<open>Loading.\<close>

fun loadFlags :: "flagDefinition list \<Rightarrow> nat \<Rightarrow> string list \<Rightarrow> uint64" where
  "loadFlags [] i names = 0"
| "loadFlags (f # fs) i names =
     (if flagPersistent f \<and> flagName f \<in> set names
      then set_bit i (loadFlags fs (Suc i) names)
      else loadFlags fs (Suc i) names)"

fun loadFields ::
  "'st fieldDefinition list \<Rightarrow> nat \<Rightarrow> (string \<times> 8 word list) list
     \<Rightarrow> (nat \<Rightarrow> 'st fieldValue option) option" where
  "loadFields [] i saved = Some (\<lambda>k. None)"
| "loadFields (d # ds) i saved =
     (case loadFields ds (Suc i) saved of
        None \<Rightarrow> None
      | Some vals \<Rightarrow>
          (case fieldCodec d of
             None \<Rightarrow> Some vals
           | Some (enc, dec) \<Rightarrow>
               (case map_of saved (fieldName d) of
                  None \<Rightarrow> Some vals
                | Some bs \<Rightarrow>
                    (case dec bs of
                       (v, None) \<Rightarrow> Some (vals(i := Some v))
                     | (v, Some e) \<Rightarrow> None))))"

definition loadNode :: "'st Setup \<Rightarrow> savedNode \<Rightarrow> 'st nodeInfo option" where
  "loadNode S r =
     (case loadFields (Fields S) 0 (savedFields r) of
        None \<Rightarrow> None
      | Some vals \<Rightarrow> Some \<lparr>state = loadFlags (Flags S) 0 (savedFlags r), nodeFields = vals\<rparr>)"

definition emptyDb :: "'id \<Rightarrow> savedNode option" where
  "emptyDb = (\<lambda>node. None)"

definition Start :: "'st Setup \<Rightarrow> ('id \<Rightarrow> savedNode option) \<Rightarrow> ('id, 'st) NodeStateMachine" where
  "Start S db =
     \<lparr>nodes = (\<lambda>node. case db node of None \<Rightarrow> None | Some r \<Rightarrow> loadNode S r),
      timeouts = [],
      dirty = {}\<rparr>"

subsection \<open>The setup of the server pool (lines 88 to 133)\<close>

definition sfHasValue :: flagDefinition where "sfHasValue = NewPersistentFlag ''hasValue''"
definition sfSelected :: flagDefinition where "sfSelected = NewFlag ''selected''"
definition sfDialed :: flagDefinition where "sfDialed = NewFlag ''dialed''"
definition sfConnected :: flagDefinition where "sfConnected = NewFlag ''connected''"
definition sfRedialWait :: flagDefinition where "sfRedialWait = NewFlag ''redialWait''"
definition sfAlwaysConnect :: flagDefinition where "sfAlwaysConnect = NewFlag ''alwaysConnect''"

definition sfiNodeHistory ::
  "rlpCodec \<Rightarrow> ('id, 'st, 'w, 'ef) library \<Rightarrow> 'st fieldDefinition" where
  "sfiNodeHistory R L =
     NewPersistentField ''nodeHistory'' (nodeHistoryEncoder R L) (nodeHistoryDecoder R)"

definition sfiConnectedStats :: "'st fieldDefinition" where
  "sfiConnectedStats = NewField ''connectedStats''"

definition serverPoolSetup :: "rlpCodec \<Rightarrow> ('id, 'st, 'w, 'ef) library \<Rightarrow> 'st Setup" where
  "serverPoolSetup R L =
     \<lparr>Flags = [sfHasValue, sfSelected, sfDialed, sfConnected, sfRedialWait, sfAlwaysConnect],
      Fields = [sfiNodeHistory R L, sfiConnectedStats]\<rparr>"

subsection \<open>The selectors of newServerPool and the state changes of the pool\<close>

text \<open>
  Modelled from the spec: \<open>StateMask\<close> and \<open>StatesMask\<close> of the state machine
  (section 4.1). A flag of the setup gets one bit, here the bit of its position in the setup;
  a flag that is not registered gets the empty mask. The mask of a list of flags is the union
  of their masks.
\<close>

fun flagIndex :: "flagDefinition list \<Rightarrow> flagDefinition \<Rightarrow> nat option" where
  "flagIndex [] f = None"
| "flagIndex (g # gs) f = (if g = f then Some 0 else map_option Suc (flagIndex gs f))"

definition StateMask :: "'st Setup \<Rightarrow> flagDefinition \<Rightarrow> uint64" where
  "StateMask S f = (case flagIndex (Flags S) f of None \<Rightarrow> 0 | Some i \<Rightarrow> push_bit i 1)"

definition StatesMask :: "'st Setup \<Rightarrow> flagDefinition list \<Rightarrow> uint64" where
  "StatesMask S fs = foldr (\<lambda>f bits. StateMask S f OR bits) fs 0"

text \<open>
  The two selectors of the pool: a weighted one over the nodes with \<open>hasValue\<close> and a queue
  over the nodes with \<open>alwaysConnect\<close>, both excluding the flags of \<open>disableSelection\<close>
  and both marking the node they emit with \<open>sfSelected\<close> (lines 96, 177 and 178).
\<close>

definition disableSelection :: "flagDefinition list" where
  "disableSelection = [sfSelected, sfDialed, sfConnected, sfRedialWait]"

record selector =
  includeMask :: uint64
  excludeMask :: uint64
  selectedMask :: uint64

definition knownSelector :: "'st Setup \<Rightarrow> selector" where
  "knownSelector S =
     \<lparr>includeMask = StateMask S sfHasValue, excludeMask = StatesMask S disableSelection,
      selectedMask = StateMask S sfSelected\<rparr>"

definition alwaysConnectSelector :: "'st Setup \<Rightarrow> selector" where
  "alwaysConnectSelector S =
     \<lparr>includeMask = StateMask S sfAlwaysConnect, excludeMask = StatesMask S disableSelection,
      selectedMask = StateMask S sfSelected\<rparr>"

text \<open>
  Modelled from the spec: what a selector does with a node (sections 4.2 and 4.3). A candidate
  has every bit of the include mask and no bit of the exclude mask; on emission the selector
  sets the selected flag on the node. The weight callback of the weighted selector only narrows
  the candidates further and is left out. What a selector does when a selected node changes
  state is \<open>unselect\<close>, below.
\<close>

definition candidate :: "selector \<Rightarrow> uint64 \<Rightarrow> bool" where
  "candidate sel st = (st AND includeMask sel = includeMask sel \<and> st AND excludeMask sel = 0)"

definition emit ::
  "selector \<Rightarrow> ('id, 'st) NodeStateMachine \<Rightarrow> int64 \<Rightarrow> 'id \<Rightarrow> ('id, 'st) NodeStateMachine" where
  "emit sel m now node =
     (if candidate sel (nodeState m node) then SetState m now node (selectedMask sel) 0 0 else m)"

text \<open>
  Modelled from the spec: the reaction of a selector to a state change (sections 3 and
  4.2). Setting \<open>dialed\<close>, \<open>connected\<close> or \<open>redialWait\<close>, the excluded flags other than
  \<open>selected\<close> itself, on a selected node unselects it. State changes are delivered to the
  subscribers synchronously with the mutation (section 4.1): \<open>SetStateSel\<close> is a
  \<open>SetState\<close> together with the reaction of the two selectors.
\<close>

definition unselect ::
  "selector \<Rightarrow> ('id, 'st) NodeStateMachine \<Rightarrow> int64 \<Rightarrow> 'id \<Rightarrow> ('id, 'st) NodeStateMachine" where
  "unselect sel m now node =
     (let st = nodeState m node
      in if st AND selectedMask sel \<noteq> 0 \<and> st AND (excludeMask sel AND NOT (selectedMask sel)) \<noteq> 0
         then SetState m now node 0 (selectedMask sel) 0
         else m)"

definition SetStateSel ::
  "'st Setup \<Rightarrow> ('id, 'st) NodeStateMachine \<Rightarrow> int64 \<Rightarrow> 'id \<Rightarrow> uint64 \<Rightarrow> uint64 \<Rightarrow> int64
     \<Rightarrow> ('id, 'st) NodeStateMachine" where
  "SetStateSel S m now node setMask resetMask tmo =
     unselect (alwaysConnectSelector S)
       (unselect (knownSelector S) (SetState m now node setMask resetMask tmo) now node) now node"

text \<open>
  The set and reset masks of the calls of \<open>SetState\<close> in serverpool.go, with the masks of
  the setup (lines 147 to 151): the dial filter (line 188), the dial timeout and the wait
  restored at start (lines 196 and 225), the trusted nodes (line 215), a node found
  valuable (lines 246 and 275), \<open>registerPeer\<close> (line 262), \<open>unregisterPeer\<close> (line 273)
  and a node found worthless (line 396). No reset mask contains \<open>selected\<close>.
\<close>

definition poolTransitions :: "'st Setup \<Rightarrow> (uint64 \<times> uint64) list" where
  "poolTransitions S =
     [(StateMask S sfDialed, 0),
      (StateMask S sfRedialWait, 0),
      (StateMask S sfAlwaysConnect, 0),
      (StateMask S sfHasValue, 0),
      (StateMask S sfConnected, StateMask S sfDialed),
      (StateMask S sfRedialWait, StateMask S sfConnected),
      (0, StateMask S sfHasValue)]"

text \<open>
  What can happen to the state machine of a pool, one event at a time: a selector emits a
  node (the weighted one or the queue), the pool calls \<open>SetState\<close> with the masks of one of
  its call sites and some timeout, a pending timer expires and clears the bits it was set
  for (section 4.1), a field is written, a node is marked for persistence. A run starts
  from the stored records.
\<close>

datatype ('id, 'st) event =
    Emission bool 'id
  | PoolSetState nat 'id int64
  | TimerExpiry nat
  | FieldWrite 'id nat "'st fieldValue option"
  | PersistNode 'id

fun step ::
  "'st Setup \<Rightarrow> int64 \<Rightarrow> ('id, 'st) event \<Rightarrow> ('id, 'st) NodeStateMachine
     \<Rightarrow> ('id, 'st) NodeStateMachine" where
  "step S now (Emission weighted node) m =
     emit (if weighted then knownSelector S else alwaysConnectSelector S) m now node"
| "step S now (PoolSetState k node tmo) m =
     (if k < length (poolTransitions S)
      then SetStateSel S m now node (fst (poolTransitions S ! k)) (snd (poolTransitions S ! k)) tmo
      else m)"
| "step S now (TimerExpiry k) m =
     (if k < length (timeouts m) \<and> toAt (timeouts m ! k) \<le>s now
      then SetStateSel S m now (toNode (timeouts m ! k)) 0 (toMask (timeouts m ! k)) 0
      else m)"
| "step S now (FieldWrite node idx v) m = SetField m node idx v"
| "step S now (PersistNode node) m = Persist m node"

definition run ::
  "'st Setup \<Rightarrow> ('id \<Rightarrow> savedNode option) \<Rightarrow> (int64 \<times> ('id, 'st) event) list
     \<Rightarrow> ('id, 'st) NodeStateMachine" where
  "run S db evs = foldl (\<lambda>m (now, ev). step S now ev m) (Start S db) evs"

text \<open>The exclusion of \<open>selected\<close> and the flags of a dial, for one state.\<close>

definition exclusive :: "'st Setup \<Rightarrow> uint64 \<Rightarrow> bool" where
  "exclusive S st =
     (st AND StateMask S sfSelected \<noteq> 0 \<longrightarrow>
      st AND (StateMask S sfDialed OR StateMask S sfConnected OR StateMask S sfRedialWait) = 0)"

subsection \<open>The field codecs of the state machine's test file (lines 266 to 291)\<close>

text \<open>
  \<open>rlp.EncodeToBytes\<close> and \<open>rlp.DecodeBytes\<close> at the type \<open>uint64\<close> are parameters of
  the first pair. A Go string is a sequence of bytes; a character stands for its byte.
\<close>

definition uint64FieldEnc ::
  "(uint64 \<Rightarrow> error + 8 word list) \<Rightarrow> 'st fieldValue \<Rightarrow> error + 8 word list" where
  "uint64FieldEnc rlpEnc field =
     (case field of FUint64 u \<Rightarrow> rlpEnc u | _ \<Rightarrow> Inl errInvalidField)"

definition uint64FieldDec ::
  "(8 word list \<Rightarrow> uint64 \<times> error option) \<Rightarrow> 8 word list \<Rightarrow> 'st fieldValue \<times> error option" where
  "uint64FieldDec rlpDec enc = (let (u, err) = rlpDec enc in (FUint64 u, err))"

definition stringFieldEnc :: "'st fieldValue \<Rightarrow> error + 8 word list" where
  "stringFieldEnc field =
     (case field of FString s \<Rightarrow> Inr (map (\<lambda>c. of_nat (of_char c)) s) | _ \<Rightarrow> Inl errInvalidField)"

definition stringFieldDec :: "8 word list \<Rightarrow> 'st fieldValue \<times> error option" where
  "stringFieldDec enc = (FString (map (\<lambda>b. char_of (unat b)) enc), None)"

text \<open>\<open>testSetup\<close> (lines 32 to 53); \<open>decimal\<close> is the \<open>%d\<close> of \<open>fmt.Sprintf\<close>.\<close>

datatype fieldType = TUint64 | TString | TUint32

fun decimal :: "nat \<Rightarrow> string" where
  "decimal n =
     (if n < 10 then [''0123456789'' ! n]
      else decimal (n div 10) @ [''0123456789'' ! (n mod 10)])"

definition testSetup ::
  "(uint64 \<Rightarrow> error + 8 word list) \<Rightarrow> (8 word list \<Rightarrow> uint64 \<times> error option)
     \<Rightarrow> bool list \<Rightarrow> fieldType list \<Rightarrow> 'st Setup" where
  "testSetup rlpEnc rlpDec flagPersist fieldTypes =
     \<lparr>Flags = map (\<lambda>(i, persist).
                if persist then NewPersistentFlag (''flag-'' @ decimal i)
                else NewFlag (''flag-'' @ decimal i))
              (enumerate 0 flagPersist),
      Fields = map (\<lambda>(i, ftype).
                 case ftype of
                   TUint64 \<Rightarrow> NewPersistentField (''field-'' @ decimal i)
                                (uint64FieldEnc rlpEnc) (uint64FieldDec rlpDec)
                 | TString \<Rightarrow> NewPersistentField (''field-'' @ decimal i)
                                stringFieldEnc stringFieldDec
                 | TUint32 \<Rightarrow> NewField (''field-'' @ decimal i))
               (enumerate 0 fieldTypes)\<rparr>"

subsection \<open>A small instance\<close>

text \<open>
  An instance on which the definitions can be evaluated. Nodes are numbered; the
  statistics of a node are one counter whose value is the service value; the dial cost
  does not decay; the timeout quantile of the global statistics is their counter in
  seconds; a conversion out of range yields \<open>2 ^ 63\<close>. Flags and fields are numbered as
  \<open>serverPoolSetup\<close> lists them: hasValue 1, selected 2, dialed 4, connected 8,
  redialWait 16, alwaysConnect 32; nodeHistory 0, connectedStats 1.
\<close>

definition exLib :: "(nat, nat, unit, unit) library" where
  "exLib =
     \<lparr>rtValue = (\<lambda>st w ef. real st),
      rtSubStats = (\<lambda>a b. a - b),
      rtAdd = (\<lambda>st t wgt ef. st),
      rtTimeout = (\<lambda>st q. of_nat st * second),
      TimeoutWeights = (\<lambda>t. ()),
      evAdd = (\<lambda>e amount lo. e\<lparr>Base := Base e + amount\<rparr>),
      evValue = (\<lambda>e lo. Base e),
      uint64_oor = (\<lambda>x. 2 ^ 63),
      int64_oor = (\<lambda>x. 2 ^ 63),
      vtUnregister = (\<lambda>v node. v\<lparr>vtGetNode := (vtGetNode v)(node := None)\<rparr>)\<rparr>"

definition exVt :: "(nat, nat, unit) valueTracker" where
  "exVt =
     \<lparr>vtRtStats = 0, vtStatsExpFactor = (),
      vtGetNode = (\<lambda>n. if n = 5 then Some 25 else None),
      vtLogOffset = (\<lambda>t. 0)\<rparr>"

definition exHistory :: "float64 \<Rightarrow> float64 \<Rightarrow> nodeHistory" where
  "exHistory tv fac =
     \<lparr>nh_dialCost = \<lparr>Base = 30000, Exp = 0\<rparr>, waitUntil = 0, lastTimeout = 500000000,
      totalValue = tv, waitFactor = fac\<rparr>"

text \<open>
  Node 5 is connected, with a history and the statistics snapshot of its connection;
  node 6 is a known node with a history for which the value tracker has no entry.
\<close>

definition exNs :: "float64 \<Rightarrow> float64 \<Rightarrow> (nat, nat) NodeStateMachine" where
  "exNs tv fac =
     \<lparr>nodes = [5 \<mapsto> \<lparr>state = 8, nodeFields = [0 \<mapsto> FNodeHistory (exHistory tv fac), 1 \<mapsto> FRtStats 5]\<rparr>,
               6 \<mapsto> \<lparr>state = 1, nodeFields = [0 \<mapsto> FNodeHistory (exHistory tv fac)]\<rparr>],
      timeouts = [],
      dirty = {}\<rparr>"

definition exPool :: "float64 \<Rightarrow> float64 \<Rightarrow> (nat, nat, unit, unit) serverPool" where
  "exPool tv fac =
     \<lparr>clockNow = 7000000000, clockOffset = 0, ns = exNs tv fac, vt = exVt,
      stDialed = 4, stConnected = 8, stRedialWait = 16, stHasValue = 1, stAlwaysConnect = 32,
      nodeHistoryField = 0, connStatsField = 1,
      timeout = 500000000, timeWeights = (), timeoutRefreshed = 6000000000\<rparr>"

text \<open>
  The pool right after its creation under a simulated clock that starts at 0, and the same
  pool one second after its first \<open>getTimeout\<close>, when the global statistics have moved.
\<close>

definition exPoolStart :: "(nat, nat, unit, unit) serverPool" where
  "exPoolStart = (exPool 20 3)\<lparr>clockNow := 0, timeout := 0, timeoutRefreshed := 0\<rparr>"

definition exPoolLater :: "(nat, nat, unit, unit) serverPool" where
  "exPoolLater =
     (snd (getTimeout exLib exPoolStart))\<lparr>clockNow := 1000000000, vt := exVt\<lparr>vtRtStats := 3\<rparr>\<rparr>"

text \<open>
  A codec for the examples: the four \<open>uint64\<close> fields as 8 big-endian bytes each. The
  theorems about the field are stated for every codec.
\<close>

definition be8 :: "uint64 \<Rightarrow> 8 word list" where
  "be8 w = map (\<lambda>i. ucast (drop_bit (8 * i) w)) [7, 6, 5, 4, 3, 2, 1, 0]"

definition of_be :: "8 word list \<Rightarrow> uint64" where
  "of_be bs = foldl (\<lambda>acc b. push_bit 8 acc OR ucast b) 0 bs"

definition exRlp :: rlpCodec where
  "exRlp =
     \<lparr>EncodeToBytes = (\<lambda>ne. Inr (be8 (Base (DialCost ne)) @ be8 (Exp (DialCost ne))
                                  @ be8 (WaitFactor ne) @ be8 (WaitUntil ne))),
      DecodeBytes = (\<lambda>bs. if length bs = 32
                           then (\<lparr>DialCost = \<lparr>Base = of_be (take 8 bs), Exp = of_be (take 8 (drop 8 bs))\<rparr>,
                                  WaitFactor = of_be (take 8 (drop 16 bs)),
                                  WaitUntil = of_be (drop 24 bs)\<rparr>, None)
                           else (\<lparr>DialCost = \<lparr>Base = 0, Exp = 0\<rparr>, WaitFactor = 0, WaitUntil = 0\<rparr>,
                                 Some errRlp))\<rparr>"

text \<open>
  The scenario of \<open>TestPersistentFields\<close> (lines 293 to 335), on node 9: the first setup,
  the machine before \<open>Stop\<close>, and the setup of the third machine with one more flag, one
  more field and the first two of each exchanged.
\<close>

definition exSetup :: "nat Setup" where
  "exSetup = testSetup (\<lambda>u. Inr (be8 u)) (\<lambda>bs. (of_be bs, None)) [True] [TUint64, TString]"

definition exSetupReordered :: "nat Setup" where
  "exSetupReordered =
     (let s = testSetup (\<lambda>u. Inr (be8 u)) (\<lambda>bs. (of_be bs, None)) [True, True]
                [TUint64, TString, TUint32]
      in s\<lparr>Flags := [Flags s ! 1, Flags s ! 0], Fields := [Fields s ! 1, Fields s ! 0, Fields s ! 2]\<rparr>)"

definition exTestNs :: "(nat, nat) NodeStateMachine" where
  "exTestNs =
     SetField
       (SetField (SetState (Start exSetup emptyDb) 0 9 1 0 0) 9 0 (Some (FUint64 100)))
       9 1 (Some (FString ''hello world''))"

text \<open>
  The first scenario of \<open>TestPersistentFlags\<close> (line 119): a persistent flag set with a
  timeout of one second, on node 7.
\<close>

definition exTimedNs :: "(nat, nat) NodeStateMachine" where
  "exTimedNs = SetState (Start exSetup emptyDb) 0 7 1 0 1000000000"

text \<open>
  A run from an empty store: \<open>start\<close> enters the trusted node 7 (line 215), the queue of
  the trusted nodes emits it, and then the dial filter visits it (line 188).
\<close>

definition exTrusted :: "(int64 \<times> (nat, nat) event) list" where
  "exTrusted = [(0, PoolSetState 2 7 0), (1000000000, Emission False 7)]"

definition exDialed :: "(int64 \<times> (nat, nat) event) list" where
  "exDialed = exTrusted @ [(2000000000, PoolSetState 0 7 (second * 10))]"


section \<open>Properties\<close>

subsection \<open>Rounding to float64\<close>

lemma roundEven_of_int [simp]: "roundEven (of_int m) = m"
  by (simp add: roundEven_def)

lemma roundEven_ge: "of_int m \<le> y \<Longrightarrow> m \<le> roundEven y"
proof -
  assume "of_int m \<le> y"
  then have "m \<le> \<lfloor>y\<rfloor>"
    by (simp add: le_floor_iff)
  then show ?thesis
    by (simp add: roundEven_def Let_def)
qed

lemma roundEven_le: "y \<le> of_int m \<Longrightarrow> roundEven y \<le> m"
proof -
  assume a: "y \<le> of_int m"
  have f: "\<lfloor>y\<rfloor> \<le> m" using a by linarith
  show ?thesis
  proof (cases "y = of_int \<lfloor>y\<rfloor>")
    case True
    then show ?thesis using f by (simp add: roundEven_def Let_def)
  next
    case False
    then have "of_int \<lfloor>y\<rfloor> < y" by linarith
    then have "\<lfloor>y\<rfloor> < m" using a by linarith
    then show ?thesis by (simp add: roundEven_def Let_def)
  qed
qed

lemma binadeShift_small: "\<bar>X\<bar> < 2 ^ 53 \<Longrightarrow> binadeShift X = 0"
proof -
  assume "\<bar>X\<bar> < 2 ^ 53"
  then have "\<lfloor>\<bar>X\<bar>\<rfloor> < 2 ^ nat 53"
    by (simp add: floor_less_iff)
  then have "bitlen \<lfloor>\<bar>X\<bar>\<rfloor> \<le> 53"
    by (simp add: bitlen_le_iff_power)
  then show ?thesis by (simp add: binadeShift_def)
qed

lemma binadeShift_eq:
  assumes "2 ^ (52 + k) \<le> \<bar>X\<bar>" and "\<bar>X\<bar> < 2 ^ (53 + k)"
  shows "binadeShift X = k"
proof -
  have "\<lfloor>\<bar>X\<bar>\<rfloor> < 2 ^ nat (53 + int k)"
    using assms(2) by (simp add: floor_less_iff nat_add_distrib)
  then have a: "bitlen \<lfloor>\<bar>X\<bar>\<rfloor> \<le> 53 + int k"
    by (simp add: bitlen_le_iff_power)
  have "(2 :: int) ^ (52 + k) \<le> \<lfloor>\<bar>X\<bar>\<rfloor>"
    using assms(1) by (simp add: le_floor_iff)
  then have "(2 :: int) ^ (nat (53 + int k) - 1) \<le> \<lfloor>\<bar>X\<bar>\<rfloor>"
    by (simp add: nat_add_distrib)
  then have b: "53 + int k \<le> bitlen \<lfloor>\<bar>X\<bar>\<rfloor>"
    by (simp add: bitlen_ge_iff_power)
  from a b show ?thesis by (simp add: binadeShift_def)
qed

lemma binadeShift_bounds:
  assumes "0 < binadeShift X"
  shows "2 ^ (52 + binadeShift X) \<le> \<bar>X\<bar>" and "\<bar>X\<bar> < 2 ^ (53 + binadeShift X)"
proof -
  let ?k = "binadeShift X"
  have bl: "bitlen \<lfloor>\<bar>X\<bar>\<rfloor> = 53 + int ?k"
    using assms by (simp add: binadeShift_def)
  then have pos: "0 < \<lfloor>\<bar>X\<bar>\<rfloor>"
    by (metis add_pos_nonneg bitlen_eq_zero_iff less_numeral_extra(3) not_le of_nat_0_le_iff zero_less_numeral)
  from bitlen_bounds [OF pos] have "2 ^ nat (bitlen \<lfloor>\<bar>X\<bar>\<rfloor> - 1) \<le> \<lfloor>\<bar>X\<bar>\<rfloor>" and "\<lfloor>\<bar>X\<bar>\<rfloor> < 2 ^ nat (bitlen \<lfloor>\<bar>X\<bar>\<rfloor>)"
    by simp_all
  then have l: "(2 :: int) ^ (52 + ?k) \<le> \<lfloor>\<bar>X\<bar>\<rfloor>" and u: "\<lfloor>\<bar>X\<bar>\<rfloor> < (2 :: int) ^ (53 + ?k)"
    by (simp_all add: bl nat_add_distrib)
  from l show "2 ^ (52 + ?k) \<le> \<bar>X\<bar>"
    by (simp add: le_floor_iff)
  from u show "\<bar>X\<bar> < 2 ^ (53 + ?k)"
    by (simp add: floor_less_iff)
qed

lemma roundEven_0 [simp]: "roundEven 0 = 0"
  by (simp add: roundEven_def)

lemma round64_0 [simp]: "round64 0 = 0"
  by (simp add: round64_def)

lemma round64_nonneg: "0 \<le> x \<Longrightarrow> 0 \<le> round64 x"
proof -
  assume "0 \<le> x"
  then have "of_int 0 \<le> x * 2 ^ 1074 / 2 ^ binadeShift (x * 2 ^ 1074)"
    by simp
  then have "0 \<le> roundEven (x * 2 ^ 1074 / 2 ^ binadeShift (x * 2 ^ 1074))"
    by (rule roundEven_ge)
  then show ?thesis
    by (simp add: round64_def Let_def)
qed

lemma round64_fixed:
  assumes "x * 2 ^ 1074 = of_int M * 2 ^ j" and "\<bar>M\<bar> < 2 ^ 53"
  shows "round64 x = x"
proof -
  define X where "X = x * 2 ^ 1074"
  define k where "k = binadeShift X"
  have X: "X = of_int M * 2 ^ j"
    using assms(1) by (simp add: X_def)
  have ub: "\<bar>X\<bar> < 2 ^ (53 + j)"
  proof -
    have "\<bar>X\<bar> = of_int \<bar>M\<bar> * 2 ^ j"
      by (simp add: X abs_mult)
    also have "\<dots> < 2 ^ 53 * 2 ^ j"
      using assms(2) by (intro mult_strict_right_mono) (simp_all flip: of_int_less_iff)
    finally show ?thesis by (simp add: power_add)
  qed
  have kj: "k \<le> j"
  proof (cases "k = 0")
    case True
    then show ?thesis by simp
  next
    case False
    then have "2 ^ (52 + k) \<le> \<bar>X\<bar>"
      using binadeShift_bounds(1) [of X] by (simp add: k_def)
    with ub have "(2 :: real) ^ (52 + k) < 2 ^ (53 + j)"
      by linarith
    then show ?thesis by simp
  qed
  then obtain d where d: "j = k + d"
    by (auto simp: le_iff_add)
  have "X / 2 ^ k = of_int (M * 2 ^ d)"
    by (simp add: X d power_add)
  then have "roundEven (X / 2 ^ k) = M * 2 ^ d"
    by (simp only: roundEven_of_int)
  then have "round64 x = of_int (M * 2 ^ d) * 2 ^ k / 2 ^ 1074"
    by (simp add: round64_def Let_def X_def k_def)
  also have "of_int (M * 2 ^ d) * 2 ^ k = (of_int M * 2 ^ j :: real)"
    by (simp add: d power_add)
  finally show ?thesis
    using assms(1) by simp
qed

lemma round64_of_int:
  assumes "\<bar>n\<bar> < 2 ^ 53"
  shows "round64 (of_int n) = of_int n"
  using _ assms by (rule round64_fixed [where j = 1074]) simp




lemma roundEven_eqI:
  assumes "\<bar>y - of_int m\<bar> < 1 / 2"
  shows "roundEven y = m"
proof -
  have "of_int m - 1 / 2 < y" and "y < of_int m + 1 / 2"
    using assms by linarith+
  then consider "\<lfloor>y\<rfloor> = m" "y - of_int m < 1 / 2" | "\<lfloor>y\<rfloor> = m - 1" "1 / 2 < y - of_int (m - 1)"
    by (cases "of_int m \<le> y") (auto simp: floor_eq_iff)
  then show ?thesis
  proof cases
    case 1
    then show ?thesis by (simp add: roundEven_def Let_def)
  next
    case 2
    then show ?thesis by (simp add: roundEven_def Let_def)
  qed
qed

lemma round64_eval:
  assumes "e \<le> 1074" and "2 ^ 52 \<le> \<bar>x\<bar> * 2 ^ e" and "\<bar>x\<bar> * 2 ^ e < 2 ^ 53"
    and "\<bar>x * 2 ^ e - of_int M\<bar> < 1 / 2"
  shows "round64 x = of_int M / 2 ^ e"
proof -
  from assms(1) obtain k where k: "1074 = e + k"
    by (auto simp: le_iff_add)
  define X where "X = x * 2 ^ 1074"
  have X: "X = x * 2 ^ e * 2 ^ k"
    by (simp add: X_def k power_add)
  have "\<bar>X\<bar> = \<bar>x\<bar> * 2 ^ e * 2 ^ k"
    by (simp add: X abs_mult)
  moreover have "2 ^ 52 * 2 ^ k \<le> \<bar>x\<bar> * 2 ^ e * (2 :: real) ^ k"
    using assms(2) by (intro mult_right_mono) simp_all
  moreover have "\<bar>x\<bar> * 2 ^ e * (2 :: real) ^ k < 2 ^ 53 * 2 ^ k"
    using assms(3) by (intro mult_strict_right_mono) simp_all
  ultimately have "2 ^ (52 + k) \<le> \<bar>X\<bar>" and "\<bar>X\<bar> < 2 ^ (53 + k)"
    by (simp_all add: power_add)
  then have s: "binadeShift X = k"
    by (rule binadeShift_eq)
  have "X / 2 ^ k = x * 2 ^ e"
    by (simp add: X)
  then have "roundEven (X / 2 ^ k) = M"
    using assms(4) by (simp add: roundEven_eqI)
  then have "round64 x = of_int M * 2 ^ k / 2 ^ 1074"
    using s by (simp add: round64_def Let_def X_def)
  also have "\<dots> = of_int M / 2 ^ e"
    by (simp add: k power_add)
  finally show ?thesis .
qed

lemma round64_dyadic:
  assumes "\<bar>M\<bar> < 2 ^ 53" and "j \<le> 1074"
  shows "round64 (of_int M / 2 ^ j) = of_int M / 2 ^ j"
proof -
  from assms(2) obtain k where k: "1074 = j + k"
    by (auto simp: le_iff_add)
  have "of_int M / 2 ^ j * 2 ^ 1074 = (of_int M * 2 ^ k :: real)"
    by (simp add: k power_add)
  then show ?thesis
    using assms(1) by (rule round64_fixed)
qed

lemma round64_numeral [simp]:
  "numeral k < (2 :: int) ^ 53 \<Longrightarrow> round64 (numeral k) = numeral k"
  using round64_of_int [of "numeral k"] by simp

lemma round64_neg_numeral [simp]:
  "numeral k < (2 :: int) ^ 53 \<Longrightarrow> round64 (- numeral k) = - numeral k"
  using round64_of_int [of "- numeral k"] by simp

lemma round64_1 [simp]: "round64 1 = 1"
  using round64_of_int [of 1] by simp

subsection \<open>Auxiliary facts\<close>

lemma getTimeout_frame:
  "ns (snd (getTimeout L s)) = ns s"
  "vt (snd (getTimeout L s)) = vt s"
  "clockNow (snd (getTimeout L s)) = clockNow s"
  "clockOffset (snd (getTimeout L s)) = clockOffset s"
  "nodeHistoryField (snd (getTimeout L s)) = nodeHistoryField s"
  "connStatsField (snd (getTimeout L s)) = connStatsField s"
  by (simp_all add: getTimeout_def Let_def)

lemma getTimeout_masks:
  "stDialed (snd (getTimeout L s)) = stDialed s"
  "stConnected (snd (getTimeout L s)) = stConnected s"
  "stRedialWait (snd (getTimeout L s)) = stRedialWait s"
  "stHasValue (snd (getTimeout L s)) = stHasValue s"
  by (simp_all add: getTimeout_def Let_def)

text \<open>The body of \<open>calculateNode\<close> when the value tracker has an entry for the node.\<close>

lemma calculateNode_Some:
  assumes "vtGetNode (vt s) node = Some st"
  shows "calculateNode L s node fc rd =
     (let lo = vtLogOffset (vt s) (clockNow s);
          n1 = chargeDial L lo (fc \<or> rd) (readNodeHistory s node);
          tdc = totalDialCostOf L lo n1;
          tmo = fst (getTimeout L s);
          s1 = snd (getTimeout L s);
          r2 = refreshTotalValue L (timeWeights s) (vtStatsExpFactor (vt s)) st rd tmo n1;
          r3 = (if fc \<or> rd
                then updateRedialWait L (clockNow s + clockOffset s) tdc
                       (sessionValue L s node st rd) (fst r2)
                else (fst r2, 0))
      in ((nodeWeight L (fst r3) tdc, snd r3),
          if snd r2 \<or> fc \<or> rd
          then s1\<lparr>ns := SetField (ns s) node (nodeHistoryField s) (Some (FNodeHistory (fst r3)))\<rparr>
          else s1))"
  using assms
  by (simp add: calculateNode_def Let_def getTimeout_frame case_prod_beta)


lemma GetField_SetField_same:
  "nodeState m node \<noteq> 0 \<Longrightarrow> GetField (SetField m node idx v) node idx = v"
  by (auto simp: GetField_def SetField_def nodeState_def split: option.splits)

lemma totalDialCostOf_max:
  "totalDialCostOf L lo n = max (evValue L (nh_dialCost n) lo) (of_nat dialCost)"
  by (auto simp: totalDialCostOf_def Let_def max_def)

lemma updateRedialWait_fields:
  "totalValue (fst (updateRedialWait L t c v n)) = totalValue n"
  "lastTimeout (fst (updateRedialWait L t c v n)) = lastTimeout n"
  "nh_dialCost (fst (updateRedialWait L t c v n)) = nh_dialCost n"
  "waitFactor (fst (updateRedialWait L t c v n)) =
     nextWaitFactor (round64 (totalValue n * real dialCost))
       (round64 (round64 (float64_of_uint64 c) * v)) (waitFactor n)"
  by (simp_all add: updateRedialWait_def Let_def)

lemma refreshTotalValue_fields:
  "waitFactor (fst (refreshTotalValue L w e st rd tmo n)) = waitFactor n"
  "nh_dialCost (fst (refreshTotalValue L w e st rd tmo n)) = nh_dialCost n"
  "totalValue (fst (refreshTotalValue L w e st rd tmo n)) =
     (if rd \<or> timeoutChanged tmo (lastTimeout n) then rtValue L st w e else totalValue n)"
  "lastTimeout (fst (refreshTotalValue L w e st rd tmo n)) =
     (if rd \<or> timeoutChanged tmo (lastTimeout n) then tmo else lastTimeout n)"
  "snd (refreshTotalValue L w e st rd tmo n) = (rd \<or> timeoutChanged tmo (lastTimeout n))"
  by (simp_all add: refreshTotalValue_def)

lemma chargeDial_fields:
  "waitFactor (chargeDial L lo c n) = waitFactor n"
  "totalValue (chargeDial L lo c n) = totalValue n"
  "lastTimeout (chargeDial L lo c n) = lastTimeout n"
  by (simp_all add: chargeDial_def)





text \<open>Conversions inside the representable range.\<close>

lemma uint64_of_float64_floor:
  assumes "0 \<le> x" and "x < 2 ^ 64"
  shows "uint (uint64_of_float64 oor x) = \<lfloor>x\<rfloor>"
proof -
  have f: "0 \<le> \<lfloor>x\<rfloor>" "\<lfloor>x\<rfloor> < 2 ^ 64"
    using assms by (simp_all add: floor_less_iff)
  then have "uint (word_of_int \<lfloor>x\<rfloor> :: 64 word) = \<lfloor>x\<rfloor>"
    by (simp add: uint_word_of_int_eq take_bit_int_eq_self)
  with f assms show ?thesis
    by (simp add: uint64_of_float64_def truncToZero_def)
qed


lemma float64_of_uint64_uint: "float64_of_uint64 w = real_of_int (uint w)"
  unfolding float64_of_uint64_def by (metis of_int_of_nat_eq uint_nat)

lemma float_minRedialWait: "float64_of_int64 minRedialWait = 10000000000"
  by (simp add: float64_of_int64_def minRedialWait_def second_def)


text \<open>
  The test of line 351 is a comparison of absolute difference as long as the timeout
  stays 20 ms away from both ends of the \<open>int64\<close> range; the stored value may be any.
\<close>

lemma sint_threshold: "sint timeoutChangeThreshold = 10000000"
  by (simp add: timeoutChangeThreshold_def millisecond_def)

lemma sint_sub_threshold:
  fixes prev :: int64
  shows "sint (prev - timeoutChangeThreshold) = signed_take_bit 63 (sint prev - 10000000)"
    and "sint (prev + timeoutChangeThreshold) = signed_take_bit 63 (sint prev + 10000000)"
  by (simp_all add: sint_word_ariths sint_threshold)

lemma timeoutChanged_iff:
  fixes tmo prev :: int64
  assumes lo: "- (2 ^ 63) + 20000000 \<le> sint tmo" and hi: "sint tmo \<le> 2 ^ 63 - 1 - 20000000"
  shows "timeoutChanged tmo prev \<longleftrightarrow> 10000000 < \<bar>sint tmo - sint prev\<bar>"
proof -
  define p where "p = sint prev"
  define t where "t = sint tmo"
  have pr: "- (2 ^ 63) \<le> p" "p < 2 ^ 63"
    using sint_ge [of prev] sint_lt [of prev] by (simp_all add: p_def)
  have tr: "- (2 ^ 63) + 20000000 \<le> t" "t \<le> 2 ^ 63 - 1 - 20000000"
    using lo hi by (simp_all add: t_def)
  have sub: "t < signed_take_bit 63 (p - 10000000) \<or> signed_take_bit 63 (p + 10000000) < t
      \<longleftrightarrow> 10000000 < \<bar>t - p\<bar>"
  proof (cases "p - 10000000 < - (2 ^ 63)")
    case True
    then have "signed_take_bit 63 (p + 10000000) = p + 10000000"
      using pr by (intro signed_take_bit_int_eq_self) simp_all
    with True tr show ?thesis by auto
  next
    case False
    then have s1: "signed_take_bit 63 (p - 10000000) = p - 10000000"
      using pr by (intro signed_take_bit_int_eq_self) simp_all
    show ?thesis
    proof (cases "2 ^ 63 \<le> p + 10000000")
      case True
      with s1 tr show ?thesis by auto
    next
      case False
      then have "signed_take_bit 63 (p + 10000000) = p + 10000000"
        using pr by (intro signed_take_bit_int_eq_self) simp_all
      with s1 show ?thesis by auto
    qed
  qed
  show ?thesis
    unfolding timeoutChanged_def word_sless_alt sint_sub_threshold
    using sub by (simp add: p_def t_def)
qed

text \<open>The record that a call leaves in the field of a node that holds a flag.\<close>

lemma readNodeHistory_store:
  "nodeState (ns s) node \<noteq> 0 \<Longrightarrow>
   readNodeHistory ((snd (getTimeout L s))\<lparr>ns := SetField (ns s) node (nodeHistoryField s)
       (Some (FNodeHistory n))\<rparr>) node = n"
  by (simp add: readNodeHistory_def getTimeout_frame GetField_SetField_same)

lemma readNodeHistory_keep:
  "readNodeHistory (snd (getTimeout L s)) node = readNodeHistory s node"
  by (simp add: readNodeHistory_def getTimeout_frame)

lemma calculateNode_history:
  assumes "vtGetNode (vt s) node = Some st" and "nodeState (ns s) node \<noteq> 0"
  shows "readNodeHistory (snd (calculateNode L s node fc rd)) node =
     (let lo = vtLogOffset (vt s) (clockNow s);
          n1 = chargeDial L lo (fc \<or> rd) (readNodeHistory s node);
          tdc = totalDialCostOf L lo n1;
          r2 = refreshTotalValue L (timeWeights s) (vtStatsExpFactor (vt s)) st rd
                 (fst (getTimeout L s)) n1
      in if fc \<or> rd
         then fst (updateRedialWait L (clockNow s + clockOffset s) tdc
                    (sessionValue L s node st rd) (fst r2))
         else fst r2)"
proof (cases "fc \<or> rd")
  case True
  with assms show ?thesis
    by (simp add: calculateNode_Some Let_def readNodeHistory_store)
next
  case False
  then have nf: "\<not> fc" "\<not> rd" by simp_all
  show ?thesis
  proof (cases "timeoutChanged (fst (getTimeout L s)) (lastTimeout (readNodeHistory s node))")
    case True
    with assms nf show ?thesis
      by (simp add: calculateNode_Some Let_def readNodeHistory_store
          refreshTotalValue_def chargeDial_def)
  next
    case False
    with assms nf show ?thesis
      by (simp add: calculateNode_Some Let_def readNodeHistory_keep
          refreshTotalValue_def chargeDial_def)
  qed
qed

subsection \<open>Facts about the instance\<close>

lemma ex_vt:
  "vtGetNode (vt (exPool tv fac)) 5 = Some 25"
  "vtGetNode (vt (exPool tv fac)) 6 = None"
  "vtLogOffset (vt (exPool tv fac)) t = 0"
  "vtStatsExpFactor (vt (exPool tv fac)) = ()"
  by (simp_all add: exPool_def exVt_def)

lemma ex_nodeState:
  "nodeState (ns (exPool tv fac)) 5 = 8"
  "nodeState (ns (exPool tv fac)) 6 = 1"
  by (simp_all add: exPool_def exNs_def nodeState_def)

lemma ex_getTimeout: "getTimeout exLib (exPool tv fac) = (500000000, exPool tv fac)"
  by (simp add: getTimeout_def exPool_def timeoutRefresh_def second_def word_sless_alt)

lemma ex_readNodeHistory:
  "readNodeHistory (exPool tv fac) 5 = exHistory tv fac"
  "readNodeHistory (exPool tv fac) 6 = exHistory tv fac"
  by (simp_all add: readNodeHistory_def GetField_def exPool_def exNs_def)

lemma ex_history:
  "nh_dialCost (exHistory tv fac) = \<lparr>Base = 30000, Exp = 0\<rparr>"
  "lastTimeout (exHistory tv fac) = 500000000"
  "totalValue (exHistory tv fac) = tv"
  "waitFactor (exHistory tv fac) = fac"
  "waitUntil (exHistory tv fac) = 0"
  by (simp_all add: exHistory_def)

lemma ex_lib:
  "evValue exLib e lo = Base e"
  "evAdd exLib e amount lo = e\<lparr>Base := Base e + amount\<rparr>"
  "rtValue exLib st w ef = real st"
  "rtSubStats exLib a b = a - b"
  "uint64_oor exLib x = 2 ^ 63"
  "int64_oor exLib x = 2 ^ 63"
  "rtTimeout exLib st q = of_nat st * second"
  "rtAdd exLib st t wgt ef = st"
  by (simp_all add: exLib_def)

lemma ex_unchanged: "\<not> timeoutChanged 500000000 500000000"
  by (simp add: timeoutChanged_def timeoutChangeThreshold_def millisecond_def word_sless_alt)

lemma ex_pool_fields:
  "clockNow (exPool tv fac) = 7000000000"
  "clockOffset (exPool tv fac) = 0"
  "nodeHistoryField (exPool tv fac) = 0"
  "connStatsField (exPool tv fac) = 1"
  "timeWeights (exPool tv fac) = ()"
  "timeout (exPool tv fac) = 500000000"
  "timeoutRefreshed (exPool tv fac) = 6000000000"
  by (simp_all add: exPool_def)

lemmas ex_simps = ex_vt ex_nodeState ex_getTimeout ex_readNodeHistory ex_history ex_lib
  ex_unchanged ex_pool_fields

lemma ex_max: "max (30000::64 word) (of_nat dialCost) = 30000"
  by (simp add: dialCost_def)

lemma ex_weight_FF:
  "fst (fst (calculateNode exLib (exPool tv fac) 5 False False)) =
     nodeWeight exLib (exHistory tv fac) 30000"
  by (simp add: calculateNode_Some [OF ex_vt(1)] Let_def ex_simps chargeDial_def
      refreshTotalValue_def totalDialCostOf_def dialCost_def)

lemma ex_nodeWeight:
  "nodeWeight exLib (exHistory tv fac) 30000 =
     uint64_of_float64 (uint64_oor exLib) (round64 (round64 (tv * 1000000) / 30000))"
  unfolding nodeWeight_def ex_history float64_of_uint64_def nodeWeightMul_def
  by simp

lemma ex_quotient_20: "round64 (round64 (20 * 1000000) / 30000) = 5864062014805333 / 2 ^ 43"
  using round64_eval [of 43 "2000 / 3" 5864062014805333] by simp

lemma ex_quotient_negative:
  "round64 (round64 (- (3 / 1024) * 1000000) / 30000) = - (25 / 256)"
  using round64_dyadic [of "- 46875" 4] round64_dyadic [of "- 25" 8] by simp

lemma ex_quotient_big:
  "round64 (round64 (3 * 2 ^ 60 * 1000000) / 30000) = 100 * 2 ^ 60"
  using round64_fixed [of "3 * 2 ^ 60 * 1000000" 3000000 1134]
    round64_fixed [of "100 * 2 ^ 60" 100 1134] by simp

lemma ex_quotient_rounded:
  "round64 (round64 (1080863910568919 / 2 ^ 55 * 1000000) / 30000) = 1"
  using round64_eval [of 38 "1080863910568919 / 2 ^ 55 * 1000000" 8246337208320000] by simp







lemma trunc_768: "truncToZero (3001 / 1000 * 256) = 768"
  by (simp add: truncToZero_def floor_eq_iff)

lemma ex_toEnc:
  "toEnc exLib (exHistory 20 (3001 / 1000)) =
     \<lparr>DialCost = \<lparr>Base = 30000, Exp = 0\<rparr>, WaitFactor = 768, WaitUntil = 0\<rparr>"
  unfolding toEnc_def ex_history uint64_of_float64_def trunc_768 by simp

lemma ex_toEnc_big:
  "toEnc exLib (exHistory 20 (2 ^ 56)) =
     \<lparr>DialCost = \<lparr>Base = 30000, Exp = 0\<rparr>, WaitFactor = 2 ^ 63, WaitUntil = 0\<rparr>"
  by (simp add: toEnc_def ex_history uint64_of_float64_def truncToZero_def ex_lib)

lemma ex_encode:
  "EncodeToBytes exRlp \<lparr>DialCost = \<lparr>Base = 30000, Exp = 0\<rparr>, WaitFactor = 768, WaitUntil = 0\<rparr> =
     Inr [0,0,0,0,0,0,117,48, 0,0,0,0,0,0,0,0, 0,0,0,0,0,0,3,0, 0,0,0,0,0,0,0,0]"
  "EncodeToBytes exRlp \<lparr>DialCost = \<lparr>Base = 30000, Exp = 0\<rparr>, WaitFactor = 2 ^ 63, WaitUntil = 0\<rparr> =
     Inr [0,0,0,0,0,0,117,48, 0,0,0,0,0,0,0,0, 128,0,0,0,0,0,0,0, 0,0,0,0,0,0,0,0]"
  by (simp_all add: exRlp_def be8_def)

lemma ex_decode:
  "DecodeBytes exRlp [0,0,0,0,0,0,117,48, 0,0,0,0,0,0,0,0, 0,0,0,0,0,0,3,0, 0,0,0,0,0,0,0,0] =
     (\<lparr>DialCost = \<lparr>Base = 30000, Exp = 0\<rparr>, WaitFactor = 768, WaitUntil = 0\<rparr>, None)"
  "DecodeBytes exRlp [0,0,0,0,0,0,117,48, 0,0,0,0,0,0,0,0, 128,0,0,0,0,0,0,0, 0,0,0,0,0,0,0,0] =
     (\<lparr>DialCost = \<lparr>Base = 30000, Exp = 0\<rparr>, WaitFactor = 2 ^ 63, WaitUntil = 0\<rparr>, None)"
  by (simp_all add: exRlp_def of_be_def)

lemma ex_start:
  "getTimeout exLib exPoolStart =
     (500000000, (exPool 20 3)\<lparr>clockNow := 0, timeout := 500000000, timeoutRefreshed := 0\<rparr>)"
  by (simp add: getTimeout_def Let_def exPoolStart_def exPool_def timeoutStats_def exVt_def
      exLib_def minTimeout_def millisecond_def second_def word_sless_alt)

lemma ex_later:
  "exPoolLater = (exPool 20 3)\<lparr>clockNow := 1000000000, timeout := 500000000,
      timeoutRefreshed := 0, vt := exVt\<lparr>vtRtStats := 3\<rparr>\<rparr>"
  by (simp add: exPoolLater_def ex_start exPool_def)

lemma ex_later_timeout: "fst (getTimeout exLib exPoolLater) = 6000000000"
  by (simp add: getTimeout_def Let_def ex_later exPool_def timeoutStats_def exVt_def
      exLib_def minTimeout_def millisecond_def second_def word_sless_alt)

lemma ex_weight_no_entry:
  "uint (fst (fst (calculateNode exLib (exPool 20 3) 6 False False))) = 0 \<and>
   \<lfloor>totalValue (readNodeHistory (exPool 20 3) 6) * real nodeWeightMul /
      real (unat (max (evValue exLib (nh_dialCost (readNodeHistory (exPool 20 3) 6))
                         (vtLogOffset (vt (exPool 20 3)) (clockNow (exPool 20 3))))
                      (of_nat dialCost)))\<rfloor> = 666"
  by (simp add: calculateNode_def ex_vt ex_readNodeHistory ex_history ex_lib
      nodeWeightMul_def dialCost_def)

lemma ex_weight_negative:
  "uint (fst (fst (calculateNode exLib (exPool (- (3 / 1024)) 3) 5 False False))) = 0 \<and>
   \<lfloor>(- (3 / 1024)) * real nodeWeightMul / real (unat (max (30000 :: 64 word) (of_nat dialCost)))\<rfloor> = - 1"
  unfolding ex_weight_FF ex_nodeWeight ex_quotient_negative
  by (simp add: uint64_of_float64_def truncToZero_def nodeWeightMul_def dialCost_def
      ceiling_eq_iff floor_eq_iff)

lemma ex_weight_out_of_range:
  "uint (fst (fst (calculateNode exLib (exPool (3 * 2 ^ 60) 3) 5 False False))) = 2 ^ 63 \<and>
   \<lfloor>3 * 2 ^ 60 * real nodeWeightMul / real (unat (max (30000 :: 64 word) (of_nat dialCost)))\<rfloor> =
     100 * 2 ^ 60"
  unfolding ex_weight_FF ex_nodeWeight ex_quotient_big
  by (simp add: uint64_of_float64_def truncToZero_def nodeWeightMul_def dialCost_def ex_lib)

lemma ex_weight_rounded:
  "uint (fst (fst (calculateNode exLib (exPool (1080863910568919 / 2 ^ 55) 3) 5 False False))) = 1 \<and>
   \<lfloor>1080863910568919 / 2 ^ 55 * real nodeWeightMul
      / real (unat (max (30000 :: 64 word) (of_nat dialCost)))\<rfloor> = 0"
  unfolding ex_weight_FF ex_nodeWeight ex_quotient_rounded
  by (simp add: uint64_of_float64_def truncToZero_def nodeWeightMul_def dialCost_def
      floor_eq_iff)

subsection \<open>calculateNode\<close>

text \<open>
  C9. When the value tracker holds no entry for the node, \<open>calculateNode\<close> returns
  weight 0 and wait 0 whatever the two flags are, and the pool is left as it was: the
  \<open>nodeHistory\<close> field is not written, no dial cost is added and no wait is scheduled.
\<close>

theorem calculateNode_no_entry:
  "vtGetNode (vt s) node = None \<Longrightarrow>
     calculateNode L s node failedConnection remoteDisconnect = ((0, 0), s)"
  by (simp add: calculateNode_def)

theorem calculateNode_no_entry_witness:
  "vtGetNode (vt (exPool 20 3)) 6 = None \<and>
   calculateNode exLib (exPool 20 3) 6 True True = ((0, 0), exPool 20 3)"
  using calculateNode_no_entry [of "exPool 20 3" 6 exLib True True]
  by (simp add: exPool_def exVt_def)



text \<open>
  C1, as amended. When the value tracker has an entry for the node, the weight is the
  quotient of line 383 as \<open>float64\<close> computes it, without its fraction: \<open>totalValue\<close> times
  1000000 is rounded to \<open>float64\<close>, divided by \<open>max totalDialCost dialCost\<close> as a
  \<open>float64\<close>, and the quotient is rounded again. Here \<open>totalValue\<close> is the value of the
  record after the recomputation step (recomputed or not) and \<open>totalDialCost\<close> is the
  value of the dial cost accumulator, after the charge of this call, at the current log
  offset. This holds when \<open>totalValue\<close> is not negative and the rounded quotient is below
  \<open>2 ^ 64\<close>, the range in which the conversion to \<open>uint64\<close> is the floor.
\<close>

theorem calculateNode_weight:
  assumes "vtGetNode (vt s) node = Some st"
    and "lo = vtLogOffset (vt s) (clockNow s)"
    and "n = chargeDial L lo (failedConnection \<or> remoteDisconnect) (readNodeHistory s node)"
    and "tv = totalValue (fst (refreshTotalValue L (timeWeights s) (vtStatsExpFactor (vt s)) st
                 remoteDisconnect (fst (getTimeout L s)) n))"
    and "totalDialCost = evValue L (nh_dialCost n) lo"
    and "q = round64 (round64 (tv * real nodeWeightMul)
                 / round64 (real (unat (max totalDialCost (of_nat dialCost)))))"
    and "0 \<le> tv"
    and "q < 2 ^ 64"
  shows "uint (fst (fst (calculateNode L s node failedConnection remoteDisconnect))) = \<lfloor>q\<rfloor>"
proof -
  have w: "fst (fst (calculateNode L s node failedConnection remoteDisconnect)) =
       uint64_of_float64 (uint64_oor L) q"
    using assms(1-6)
    by (simp add: calculateNode_Some Let_def nodeWeight_def updateRedialWait_fields
        totalDialCostOf_max float64_of_uint64_def)
  have "0 \<le> round64 (tv * real nodeWeightMul)"
    using assms(7) by (intro round64_nonneg mult_nonneg_nonneg) simp_all
  moreover have "0 \<le> round64 (real (unat (max totalDialCost (of_nat dialCost))))"
    by (intro round64_nonneg of_nat_0_le_iff)
  ultimately have "0 \<le> round64 (tv * real nodeWeightMul)
      / round64 (real (unat (max totalDialCost (of_nat dialCost))))"
    by (rule divide_nonneg_nonneg)
  then have "0 \<le> q"
    unfolding assms(6) by (rule round64_nonneg)
  then show ?thesis
    unfolding w using assms(8) by (rule uint64_of_float64_floor)
qed

theorem calculateNode_weight_witness:
  "vtGetNode (vt (exPool 20 3)) 5 = Some 25 \<and> (0 :: real) \<le> 20 \<and>
   round64 (round64 (20 * real nodeWeightMul)
     / round64 (real (unat (max (30000 :: 64 word) (of_nat dialCost))))) < 2 ^ 64 \<and>
   uint (fst (fst (calculateNode exLib (exPool 20 3) 5 False False))) = 666"
proof -
  let ?q = "round64 (round64 (20 * real nodeWeightMul)
     / round64 (real (unat (max (30000 :: 64 word) (of_nat dialCost)))))"
  have h1: "vtGetNode (vt (exPool 20 3)) 5 = Some 25"
    by (simp add: ex_vt)
  have h2: "(0 :: int64) = vtLogOffset (vt (exPool 20 3)) (clockNow (exPool 20 3))"
    by (simp add: ex_vt)
  have h3: "exHistory 20 3 = chargeDial exLib 0 (False \<or> False) (readNodeHistory (exPool 20 3) 5)"
    by (simp add: chargeDial_def ex_readNodeHistory)
  have h4: "20 = totalValue (fst (refreshTotalValue exLib (timeWeights (exPool 20 3))
       (vtStatsExpFactor (vt (exPool 20 3))) 25 False (fst (getTimeout exLib (exPool 20 3)))
       (exHistory 20 3)))"
    by (simp add: refreshTotalValue_fields ex_getTimeout ex_history ex_unchanged)
  have h5: "30000 = evValue exLib (nh_dialCost (exHistory 20 3)) 0"
    by (simp add: ex_lib ex_history)
  have q: "?q = 5864062014805333 / 2 ^ 43"
    using ex_quotient_20 by (simp add: ex_max nodeWeightMul_def)
  have h7: "(0 :: real) \<le> 20"
    by simp
  have h8: "?q < 2 ^ 64"
    unfolding q by simp
  have fl: "\<lfloor>?q\<rfloor> = 666"
    unfolding q by (simp add: floor_eq_iff)
  have "uint (fst (fst (calculateNode exLib (exPool 20 3) 5 False False))) = 666"
    using calculateNode_weight [OF h1 h2 h3 h4 h5 refl h7 h8] unfolding fl .
  with h1 h7 h8 show ?thesis by blast
qed

text \<open>
  C1 as stated fails without an entry in the value tracker: node 6 has a history with
  \<open>totalValue = 20\<close> and dial cost 30000, so the formula gives 666, and the weight is 0.
  It fails for a negative \<open>totalValue\<close> (the conversion truncates towards zero) and for
  a quotient of \<open>2 ^ 64\<close> or more. And it fails where the rounding of \<open>float64\<close> crosses an
  integer: with the \<open>float64\<close> nearest to 0.03 as \<open>totalValue\<close> and dial cost 30000, the
  product rounds to 30000 and the weight is 1, while the exact quotient is below 1.
\<close>

theorem calculateNode_weight_counterexample:
  "(uint (fst (fst (calculateNode exLib (exPool 20 3) 6 False False))) = 0 \<and>
    \<lfloor>totalValue (readNodeHistory (exPool 20 3) 6) * real nodeWeightMul /
       real (unat (max (evValue exLib (nh_dialCost (readNodeHistory (exPool 20 3) 6))
                          (vtLogOffset (vt (exPool 20 3)) (clockNow (exPool 20 3))))
                       (of_nat dialCost)))\<rfloor> = 666) \<and>
   (uint (fst (fst (calculateNode exLib (exPool (- (3 / 1024)) 3) 5 False False))) = 0 \<and>
    \<lfloor>(- (3 / 1024)) * real nodeWeightMul / real (unat (max (30000 :: 64 word) (of_nat dialCost)))\<rfloor> = - 1) \<and>
   (uint (fst (fst (calculateNode exLib (exPool (3 * 2 ^ 60) 3) 5 False False))) = 2 ^ 63 \<and>
    \<lfloor>3 * 2 ^ 60 * real nodeWeightMul / real (unat (max (30000 :: 64 word) (of_nat dialCost)))\<rfloor> =
      100 * 2 ^ 60) \<and>
   (uint (fst (fst (calculateNode exLib (exPool (1080863910568919 / 2 ^ 55) 3) 5 False False))) = 1 \<and>
    \<lfloor>1080863910568919 / 2 ^ 55 * real nodeWeightMul
       / real (unat (max (30000 :: 64 word) (of_nat dialCost)))\<rfloor> = 0)"
  using ex_weight_no_entry ex_weight_negative ex_weight_out_of_range ex_weight_rounded by blast

text \<open>
  C5. For a node that the value tracker knows and that holds a flag, and a timeout at
  least 20 ms away from both ends of the \<open>int64\<close> range: let the trigger be
  \<open>remoteDisconnect\<close> or a timeout that differs from the stored \<open>lastTimeout\<close> by more
  than 10 ms. With the trigger, the record left in the field has its \<open>totalValue\<close>
  recomputed from the node's current statistics and its \<open>lastTimeout\<close> set to the
  timeout; without it, both are as before. The field is written when the trigger holds or
  the redial wait is updated; since \<open>remoteDisconnect\<close> is a trigger, that is the
  trigger or \<open>failedConnection\<close>. With neither, the state machine is unchanged.
\<close>

theorem calculateNode_refresh:
  assumes "vtGetNode (vt s) node = Some st" and "nodeState (ns s) node \<noteq> 0"
    and "tmo = fst (getTimeout L s)"
    and "- (2 ^ 63) + 20000000 \<le> sint tmo" and "sint tmo \<le> 2 ^ 63 - 1 - 20000000"
    and "n = readNodeHistory s node"
    and "s' = snd (calculateNode L s node failedConnection remoteDisconnect)"
    and "n' = readNodeHistory s' node"
    and "trigger = (remoteDisconnect \<or> 10000000 < \<bar>sint tmo - sint (lastTimeout n)\<bar>)"
  shows "(trigger \<longrightarrow> totalValue n' = rtValue L st (timeWeights s) (vtStatsExpFactor (vt s))
                     \<and> lastTimeout n' = tmo)
       \<and> (\<not> trigger \<longrightarrow> totalValue n' = totalValue n \<and> lastTimeout n' = lastTimeout n)
       \<and> (trigger \<or> failedConnection \<longrightarrow>
             GetField (ns s') node (nodeHistoryField s) = Some (FNodeHistory n'))
       \<and> (\<not> trigger \<and> \<not> failedConnection \<longrightarrow> ns s' = ns s)"
proof -
  have tc: "timeoutChanged tmo (lastTimeout n) \<longleftrightarrow> 10000000 < \<bar>sint tmo - sint (lastTimeout n)\<bar>"
    using assms(4,5) by (rule timeoutChanged_iff)
  have tr: "trigger = (remoteDisconnect \<or> timeoutChanged (fst (getTimeout L s))
                          (lastTimeout (readNodeHistory s node)))"
    using tc by (simp add: assms(9) assms(6) assms(3))
  have h: "n' = (let lo = vtLogOffset (vt s) (clockNow s);
          n1 = chargeDial L lo (failedConnection \<or> remoteDisconnect) n;
          tdc = totalDialCostOf L lo n1;
          r2 = refreshTotalValue L (timeWeights s) (vtStatsExpFactor (vt s)) st remoteDisconnect tmo n1
      in if failedConnection \<or> remoteDisconnect
         then fst (updateRedialWait L (clockNow s + clockOffset s) tdc
                    (sessionValue L s node st remoteDisconnect) (fst r2))
         else fst r2)"
    unfolding assms(8) assms(7) assms(6) assms(3)
    using assms(1,2) by (rule calculateNode_history)
  have v: "totalValue n' = (if trigger then rtValue L st (timeWeights s) (vtStatsExpFactor (vt s))
                            else totalValue n)"
    unfolding h by (simp add: Let_def updateRedialWait_fields refreshTotalValue_fields
        chargeDial_fields tc assms(9))
  have l: "lastTimeout n' = (if trigger then tmo else lastTimeout n)"
    unfolding h by (simp add: Let_def updateRedialWait_fields refreshTotalValue_fields
        chargeDial_fields tc assms(9))
  have st: "trigger \<or> failedConnection \<Longrightarrow>
      ns s' = SetField (ns s) node (nodeHistoryField s) (Some (FNodeHistory n'))"
  proof -
    assume a: "trigger \<or> failedConnection"
    have "\<exists>x. ns s' = SetField (ns s) node (nodeHistoryField s) (Some (FNodeHistory x))"
      using a assms(1) unfolding assms(7) tr
      by (auto simp: calculateNode_Some Let_def refreshTotalValue_fields chargeDial_fields)
    then obtain x where x: "ns s' = SetField (ns s) node (nodeHistoryField s) (Some (FNodeHistory x))"
      by blast
    have "GetField (ns s') node (nodeHistoryField s) = Some (FNodeHistory x)"
      unfolding x using assms(2) by (rule GetField_SetField_same)
    moreover have "nodeHistoryField s' = nodeHistoryField s"
      unfolding assms(7) using assms(1)
      by (simp add: calculateNode_Some Let_def getTimeout_frame)
    ultimately have "n' = x"
      unfolding assms(8) by (simp add: readNodeHistory_def)
    with x show ?thesis by simp
  qed
  have g: "trigger \<or> failedConnection \<Longrightarrow>
      GetField (ns s') node (nodeHistoryField s) = Some (FNodeHistory n')"
    using st assms(2) by (simp add: GetField_SetField_same)
  have u: "\<not> trigger \<Longrightarrow> \<not> failedConnection \<Longrightarrow> ns s' = ns s"
    using assms(1) unfolding assms(7) tr
    by (simp add: calculateNode_Some Let_def refreshTotalValue_fields chargeDial_fields
        getTimeout_frame)
  show ?thesis using v l g u by simp
qed

theorem calculateNode_refresh_witness:
  "vtGetNode (vt (exPool 20 3)) 5 = Some 25 \<and> nodeState (ns (exPool 20 3)) 5 \<noteq> 0 \<and>
   - (2 ^ 63) + 20000000 \<le> sint (fst (getTimeout exLib (exPool 20 3))) \<and>
   sint (fst (getTimeout exLib (exPool 20 3))) \<le> 2 ^ 63 - 1 - 20000000 \<and>
   totalValue (readNodeHistory (snd (calculateNode exLib (exPool 20 3) 5 False True)) 5) = 25 \<and>
   lastTimeout (readNodeHistory (snd (calculateNode exLib (exPool 20 3) 5 False True)) 5) = 500000000 \<and>
   GetField (ns (snd (calculateNode exLib (exPool 20 3) 5 False True))) 5 (nodeHistoryField (exPool 20 3)) =
     Some (FNodeHistory (readNodeHistory (snd (calculateNode exLib (exPool 20 3) 5 False True)) 5)) \<and>
   totalValue (readNodeHistory (snd (calculateNode exLib (exPool 20 3) 5 False False)) 5) = 20 \<and>
   ns (snd (calculateNode exLib (exPool 20 3) 5 False False)) = ns (exPool 20 3)"
proof -
  have h1: "vtGetNode (vt (exPool 20 3)) 5 = Some 25"
    by (simp add: ex_vt)
  have h2: "nodeState (ns (exPool 20 3)) 5 \<noteq> 0"
    by (simp add: ex_nodeState)
  have h3: "500000000 = fst (getTimeout exLib (exPool 20 3))"
    by (simp add: ex_getTimeout)
  have h4: "- (2 ^ 63) + 20000000 \<le> sint (500000000 :: int64)"
    by simp
  have h5: "sint (500000000 :: int64) \<le> 2 ^ 63 - 1 - 20000000"
    by simp
  have h6: "exHistory 20 3 = readNodeHistory (exPool 20 3) 5"
    by (simp add: ex_readNodeHistory)
  have tA: "True = (True \<or> 10000000 < \<bar>sint (500000000 :: int64) - sint (lastTimeout (exHistory 20 3))\<bar>)"
    by simp
  have tB: "False = (False \<or> 10000000 < \<bar>sint (500000000 :: int64) - sint (lastTimeout (exHistory 20 3))\<bar>)"
    by (simp add: ex_history)
  have v: "rtValue exLib 25 (timeWeights (exPool 20 3)) (vtStatsExpFactor (vt (exPool 20 3))) = 25"
    by (simp add: ex_lib)
  note a = calculateNode_refresh [OF h1 h2 h3 h4 h5 h6 refl refl tA, where failedConnection = False,
      unfolded v]
  note b = calculateNode_refresh [OF h1 h2 h3 h4 h5 h6 refl refl tB, where failedConnection = False]
  have ha: "totalValue (readNodeHistory (snd (calculateNode exLib (exPool 20 3) 5 False True)) 5) = 25 \<and>
   lastTimeout (readNodeHistory (snd (calculateNode exLib (exPool 20 3) 5 False True)) 5) = 500000000 \<and>
   GetField (ns (snd (calculateNode exLib (exPool 20 3) 5 False True))) 5 (nodeHistoryField (exPool 20 3)) =
     Some (FNodeHistory (readNodeHistory (snd (calculateNode exLib (exPool 20 3) 5 False True)) 5))"
    using a by blast
  have hb: "totalValue (readNodeHistory (snd (calculateNode exLib (exPool 20 3) 5 False False)) 5) = 20 \<and>
   ns (snd (calculateNode exLib (exPool 20 3) 5 False False)) = ns (exPool 20 3)"
    using b by (simp add: ex_history)
  show ?thesis
    using h1 h2 h4 h5 ha hb unfolding h3 [symmetric] by blast
qed




subsection \<open>The persistent field\<close>

text \<open>
  C8, as amended. For a record with \<open>0 \<le> waitFactor\<close> and \<open>waitFactor * 256 < 2 ^ 64\<close>,
  and a codec that returns the encoded structure unchanged, decoding the encoding yields
  the same \<open>dialCost\<close> and \<open>waitUntil\<close>, the \<open>waitFactor\<close> rounded down to a multiple of
  \<open>1 / 256\<close>, and zero \<open>lastTimeout\<close> and \<open>totalValue\<close>.
\<close>

theorem nodeHistory_codec:
  assumes "0 \<le> waitFactor n" and "waitFactor n * 256 < 2 ^ 64"
    and "EncodeToBytes R (toEnc L n) = Inr enc"
    and "DecodeBytes R enc = (toEnc L n, None)"
  shows "nodeHistoryEncoder R L (FNodeHistory n) = Inr enc \<and>
         nodeHistoryDecoder R enc =
           (FNodeHistory \<lparr>nh_dialCost = nh_dialCost n, waitUntil = waitUntil n, lastTimeout = 0,
                          totalValue = 0,
                          waitFactor = real_of_int \<lfloor>waitFactor n * 256\<rfloor> / 256\<rparr>, None)"
proof -
  have "0 \<le> waitFactor n * 256" using assms(1) by simp
  then have "uint (uint64_of_float64 (uint64_oor L) (waitFactor n * 256)) = \<lfloor>waitFactor n * 256\<rfloor>"
    using assms(2) by (rule uint64_of_float64_floor)
  then have q: "float64_of_uint64 (uint64_of_float64 (uint64_oor L) (waitFactor n * 256)) =
      real_of_int \<lfloor>waitFactor n * 256\<rfloor>"
    by (simp add: float64_of_uint64_uint)
  have d: "nodeHistoryDecoder R enc = (FNodeHistory (fromEnc (toEnc L n)), None)"
    by (simp add: nodeHistoryDecoder_def assms(4))
  have e: "nodeHistoryEncoder R L (FNodeHistory n) = Inr enc"
    by (simp add: nodeHistoryEncoder_def assms(3))
  have "fromEnc (toEnc L n) =
      \<lparr>nh_dialCost = nh_dialCost n, waitUntil = waitUntil n, lastTimeout = 0, totalValue = 0,
       waitFactor = real_of_int \<lfloor>waitFactor n * 256\<rfloor> / 256\<rparr>"
    by (simp add: fromEnc_def toEnc_def q)
  with d e show ?thesis by simp
qed

theorem nodeHistory_codec_witness:
  "(0 :: real) \<le> waitFactor (exHistory 20 (3001 / 1000)) \<and>
   waitFactor (exHistory 20 (3001 / 1000)) * 256 < 2 ^ 64 \<and>
   nodeHistoryEncoder exRlp exLib (FNodeHistory (exHistory 20 (3001 / 1000)) :: nat fieldValue) =
     Inr [0,0,0,0,0,0,117,48, 0,0,0,0,0,0,0,0, 0,0,0,0,0,0,3,0, 0,0,0,0,0,0,0,0] \<and>
   nodeHistoryDecoder exRlp [0,0,0,0,0,0,117,48, 0,0,0,0,0,0,0,0, 0,0,0,0,0,0,3,0, 0,0,0,0,0,0,0,0] =
     (FNodeHistory \<lparr>nh_dialCost = \<lparr>Base = 30000, Exp = 0\<rparr>, waitUntil = 0, lastTimeout = 0,
                    totalValue = 0, waitFactor = 3\<rparr> :: nat fieldValue, None)"
proof -
  let ?n = "exHistory 20 (3001 / 1000)"
  let ?enc = "[0,0,0,0,0,0,117,48, 0,0,0,0,0,0,0,0, 0,0,0,0,0,0,3,0, 0,0,0,0,0,0,0,0] :: 8 word list"
  have h1: "0 \<le> waitFactor ?n"
    by (simp add: ex_history)
  have h2: "waitFactor ?n * 256 < 2 ^ 64"
    by (simp add: ex_history)
  have h3: "EncodeToBytes exRlp (toEnc exLib ?n) = Inr ?enc"
    unfolding ex_toEnc by (rule ex_encode)
  have h4: "DecodeBytes exRlp ?enc = (toEnc exLib ?n, None)"
    unfolding ex_toEnc by (rule ex_decode)
  have fl: "real_of_int \<lfloor>(3001 / 1000 :: real) * 256\<rfloor> / 256 = 3"
    by (simp add: floor_eq_iff)
  note c = nodeHistory_codec [OF h1 h2 h3 h4, unfolded ex_history fl]
  show ?thesis
    using c h1 h2 by blast
qed

text \<open>
  C8 as stated fails for a \<open>waitFactor\<close> of \<open>2 ^ 56\<close>: \<open>waitFactor * 256\<close> is not a
  \<open>uint64\<close>, and whatever the conversion yields, the decoded factor is below \<open>2 ^ 56\<close>
  (here it is \<open>2 ^ 55\<close>).
\<close>

theorem nodeHistory_codec_counterexample:
  "(0 :: real) \<le> waitFactor (exHistory 20 (2 ^ 56)) \<and>
   nodeHistoryEncoder exRlp exLib (FNodeHistory (exHistory 20 (2 ^ 56)) :: nat fieldValue) =
     Inr [0,0,0,0,0,0,117,48, 0,0,0,0,0,0,0,0, 128,0,0,0,0,0,0,0, 0,0,0,0,0,0,0,0] \<and>
   nodeHistoryDecoder exRlp [0,0,0,0,0,0,117,48, 0,0,0,0,0,0,0,0, 128,0,0,0,0,0,0,0, 0,0,0,0,0,0,0,0] =
     (FNodeHistory \<lparr>nh_dialCost = \<lparr>Base = 30000, Exp = 0\<rparr>, waitUntil = 0, lastTimeout = 0,
                    totalValue = 0, waitFactor = 2 ^ 55\<rparr> :: nat fieldValue, None) \<and>
   real_of_int \<lfloor>waitFactor (exHistory 20 (2 ^ 56)) * 256\<rfloor> / 256 = 2 ^ 56"
proof -
  have e: "nodeHistoryEncoder exRlp exLib (FNodeHistory (exHistory 20 (2 ^ 56)) :: nat fieldValue) =
     Inr [0,0,0,0,0,0,117,48, 0,0,0,0,0,0,0,0, 128,0,0,0,0,0,0,0, 0,0,0,0,0,0,0,0]"
    unfolding nodeHistoryEncoder_def fieldValue.case ex_toEnc_big by (rule ex_encode)
  have d: "nodeHistoryDecoder exRlp [0,0,0,0,0,0,117,48, 0,0,0,0,0,0,0,0, 128,0,0,0,0,0,0,0, 0,0,0,0,0,0,0,0] =
     (FNodeHistory \<lparr>nh_dialCost = \<lparr>Base = 30000, Exp = 0\<rparr>, waitUntil = 0, lastTimeout = 0,
                    totalValue = 0, waitFactor = 2 ^ 55\<rparr> :: nat fieldValue, None)"
    unfolding nodeHistoryDecoder_def ex_decode
    by (simp add: fromEnc_def float64_of_uint64_def)
  have f: "real_of_int \<lfloor>waitFactor (exHistory 20 (2 ^ 56)) * 256\<rfloor> / 256 = 2 ^ 56"
    by (simp add: ex_history)
  have "(0 :: real) \<le> waitFactor (exHistory 20 (2 ^ 56))"
    by (simp add: ex_history)
  with e d f show ?thesis by blast
qed

subsection \<open>getTimeout\<close>

text \<open>
  C4, as amended. \<open>getTimeout\<close> returns the cached timeout, and changes nothing, when
  \<open>timeoutRefreshed\<close> is not 0 and the clock is less than 5 s past it. Otherwise it
  returns the greatest of 500 ms, \<open>Timeout(0.1)\<close> and \<open>Timeout(0.5) * 2\<close> of the global
  statistics with ten samples of 2 s added, stores it and records the clock.
\<close>

theorem getTimeout_result:
  assumes "r = getTimeout L s"
    and "rts = rtAdd L (vtRtStats (vt s)) (second * 2) 10 (vtStatsExpFactor (vt s))"
    and "cached = (timeoutRefreshed s \<noteq> 0 \<and> sint (clockNow s - timeoutRefreshed s) < sint timeoutRefresh)"
  shows "(cached \<longrightarrow> r = (timeout s, s))
       \<and> (\<not> cached \<longrightarrow>
            sint (fst r) = max (sint minTimeout)
                            (max (sint (rtTimeout L rts (1 / 10))) (sint (rtTimeout L rts (1 / 2) * 2)))
          \<and> timeout (snd r) = fst r \<and> timeoutRefreshed (snd r) = clockNow s)"
  unfolding assms
  by (auto simp: getTimeout_def Let_def timeoutStats_def word_sless_alt max_def)

theorem getTimeout_result_witness:
  "timeoutRefreshed (exPool 20 3) \<noteq> 0 \<and>
   sint (clockNow (exPool 20 3) - timeoutRefreshed (exPool 20 3)) < sint timeoutRefresh \<and>
   getTimeout exLib (exPool 20 3) = (timeout (exPool 20 3), exPool 20 3) \<and>
   timeoutRefreshed exPoolLater = 0 \<and>
   sint (fst (getTimeout exLib exPoolLater)) =
     max (sint minTimeout) (max (sint (3 * second :: int64)) (sint (3 * second * 2 :: int64)))"
proof -
  have a: "timeoutRefreshed (exPool 20 3) \<noteq> 0 \<and>
      sint (clockNow (exPool 20 3) - timeoutRefreshed (exPool 20 3)) < sint timeoutRefresh"
    by (simp add: ex_pool_fields timeoutRefresh_def second_def)
  have b: "timeoutRefreshed exPoolLater = 0"
    by (simp add: ex_later)
  have r: "rtAdd exLib (vtRtStats (vt exPoolLater)) (second * 2) 10 (vtStatsExpFactor (vt exPoolLater)) = 3"
    by (simp add: ex_later ex_lib)
  have t: "rtTimeout exLib 3 q = 3 * second" for q
    by (simp add: ex_lib)
  have calculateNode_weight: "getTimeout exLib (exPool 20 3) = (timeout (exPool 20 3), exPool 20 3)"
    using getTimeout_result [where L = exLib and s = "exPool 20 3", OF refl refl refl] a by blast
  have calculateNode_waitFactor_ge_1: "sint (fst (getTimeout exLib exPoolLater)) =
     max (sint minTimeout) (max (sint (3 * second :: int64)) (sint (3 * second * 2 :: int64)))"
    using getTimeout_result [where L = exLib and s = exPoolLater, OF refl refl refl] b unfolding r t by blast
  show ?thesis using a b calculateNode_weight calculateNode_waitFactor_ge_1 by blast
qed

text \<open>
  C4 as stated fails when the previous computation took place at clock reading 0, which
  \<open>timeoutRefreshed\<close> cannot tell from no computation at all: the pool computed 500 ms at
  reading 0; one second later the statistics have moved and the call returns 6 s, not
  the cached 500 ms.
\<close>

theorem getTimeout_cached_counterexample:
  "timeoutRefreshed exPoolLater = clockNow exPoolStart \<and>
   sint (clockNow exPoolLater - clockNow exPoolStart) < sint timeoutRefresh \<and>
   timeout exPoolLater = fst (getTimeout exLib exPoolStart) \<and>
   timeout exPoolLater = 500000000 \<and>
   fst (getTimeout exLib exPoolLater) = 6000000000"
  by (simp add: ex_later_timeout ex_start)
    (simp add: ex_later exPoolStart_def timeoutRefresh_def second_def)

subsection \<open>unregisterPeer\<close>

text \<open>Facts about the state machine operations.\<close>

lemma nodeState_SetField [simp]: "nodeState (SetField m n i v) n' = nodeState m n'"
  by (auto simp: nodeState_def SetField_def split: option.splits)

lemma SetField_frame [simp]:
  "timeouts (SetField m n i v) = timeouts m"
  "dirty (SetField m n i v) = dirty m"
  by (auto simp: SetField_def split: option.splits)

lemma nodeState_SetState:
  "nodeState (SetState m now n setMask resetMask tmo) n = (nodeState m n AND NOT resetMask) OR setMask"
  by (auto simp: SetState_def Let_def nodeState_def split: option.splits)

lemma dirty_SetState [simp]: "dirty (SetState m now n setMask resetMask tmo) = dirty m"
  by (simp add: SetState_def Let_def)

lemma GetField_SetState:
  "(nodeState m n AND NOT resetMask) OR setMask \<noteq> 0 \<Longrightarrow>
   GetField (SetState m now n setMask resetMask tmo) n idx = GetField m n idx"
  by (auto simp: SetState_def Let_def GetField_def nodeState_def split: option.splits)

lemma Persist_frame [simp]:
  "nodeState (Persist m n) n' = nodeState m n'"
  "GetField (Persist m n) n' idx = GetField m n' idx"
  "timeouts (Persist m n) = timeouts m"
  "dirty (Persist m n) = insert n (dirty m)"
  by (simp_all add: Persist_def nodeState_def GetField_def)

lemma and_not_self:
  fixes x b :: uint64
  assumes "x AND b = 0"
  shows "x AND NOT b = x"
proof (rule bit_eqI)
  fix k
  from assms have "\<not> bit (x AND b) k"
    by simp
  then show "bit (x AND NOT b) k = bit x k"
    by (auto simp: bit_and_iff bit_not_iff dest: bit_imp_le_length)
qed

lemma state_changes:
  fixes old r c :: uint64
  assumes "r AND c = 0" and "old AND c \<noteq> 0"
  shows "(old AND NOT c) OR r \<noteq> old"
proof
  assume e: "(old AND NOT c) OR r = old"
  have "((old AND NOT c) OR r) AND c = 0"
  proof (rule bit_eqI)
    fix k
    from assms(1) have "\<not> bit (r AND c) k"
      by simp
    then show "bit (((old AND NOT c) OR r) AND c) k = bit (0 :: uint64) k"
      by (auto simp: bit_and_iff bit_or_iff bit_not_iff)
  qed
  with e assms(2) show False by simp
qed

lemma or_nonzero:
  fixes x r :: uint64
  shows "r \<noteq> 0 \<Longrightarrow> x OR r \<noteq> 0"
  by (simp add: or_eq_0_iff)

lemma removeTimeouts_keep:
  assumes "t \<in> set ts" and "toMask t AND bits = 0" and "toMask t \<noteq> 0"
  shows "t \<in> set (removeTimeouts ts n bits)"
proof -
  have e: "t = (if toNode t = n then t\<lparr>toMask := toMask t AND NOT bits\<rparr> else t)"
    by (simp add: and_not_self [OF assms(2)])
  have "t \<in> (\<lambda>t. if toNode t = n then t\<lparr>toMask := toMask t AND NOT bits\<rparr> else t) ` set ts"
    using assms(1) e by (rule rev_image_eqI)
  with assms(3) show ?thesis
    by (simp add: removeTimeouts_def)
qed

lemma timeouts_SetState_new:
  assumes "(nodeState m n AND NOT resetMask) OR setMask \<noteq> nodeState m n" and "0 <s tmo"
  shows "\<lparr>toNode = n, toMask = setMask, toAt = now + tmo\<rparr>
           \<in> set (timeouts (SetState m now n setMask resetMask tmo))"
  using assms by (simp add: SetState_def Let_def)

lemma timeouts_SetState_keep:
  assumes "t \<in> set (timeouts m)" and "toMask t AND (setMask OR resetMask) = 0" and "toMask t \<noteq> 0"
  shows "t \<in> set (timeouts (SetState m now n setMask resetMask tmo))"
  using removeTimeouts_keep [OF assms, of n] assms(1)
  by (simp add: SetState_def Let_def)

text \<open>What \<open>calculateNode\<close> leaves alone.\<close>

lemma calculateNode_frame_all:
  "stDialed (snd (calculateNode L s n fc rd)) = stDialed s \<and>
   stConnected (snd (calculateNode L s n fc rd)) = stConnected s \<and>
   stRedialWait (snd (calculateNode L s n fc rd)) = stRedialWait s \<and>
   stHasValue (snd (calculateNode L s n fc rd)) = stHasValue s \<and>
   clockNow (snd (calculateNode L s n fc rd)) = clockNow s \<and>
   connStatsField (snd (calculateNode L s n fc rd)) = connStatsField s \<and>
   vt (snd (calculateNode L s n fc rd)) = vt s \<and>
   nodeState (ns (snd (calculateNode L s n fc rd))) n' = nodeState (ns s) n' \<and>
   timeouts (ns (snd (calculateNode L s n fc rd))) = timeouts (ns s) \<and>
   dirty (ns (snd (calculateNode L s n fc rd))) = dirty (ns s)"
proof (cases "vtGetNode (vt s) n")
  case None
  then show ?thesis
    by (simp add: calculateNode_def)
next
  case (Some st)
  show ?thesis
    by (simp add: calculateNode_Some [OF Some] Let_def getTimeout_frame getTimeout_masks)
qed

lemma calculateNode_frame:
  "stDialed (snd (calculateNode L s n fc rd)) = stDialed s"
  "stConnected (snd (calculateNode L s n fc rd)) = stConnected s"
  "stRedialWait (snd (calculateNode L s n fc rd)) = stRedialWait s"
  "stHasValue (snd (calculateNode L s n fc rd)) = stHasValue s"
  "clockNow (snd (calculateNode L s n fc rd)) = clockNow s"
  "connStatsField (snd (calculateNode L s n fc rd)) = connStatsField s"
  "vt (snd (calculateNode L s n fc rd)) = vt s"
  "nodeState (ns (snd (calculateNode L s n fc rd))) n' = nodeState (ns s) n'"
  "timeouts (ns (snd (calculateNode L s n fc rd))) = timeouts (ns s)"
  "dirty (ns (snd (calculateNode L s n fc rd))) = dirty (ns s)"
  using calculateNode_frame_all [of L s n fc rd n'] by blast+

text \<open>
  The handler of the pool acts only on the change from exactly \<open>dialed\<close> to neither
  \<open>dialed\<close> nor \<open>connected\<close>; a transition that does not reset \<open>dialed\<close> leaves it idle.
\<close>

lemma handler_idle_gen:
  fixes old c d :: uint64
  assumes "resetMask AND d = 0" and "d \<noteq> 0"
  shows "\<not> (old AND (d OR c) = d \<and> ((old AND NOT resetMask) OR setMask) AND (d OR c) = 0)"
proof
  assume a: "old AND (d OR c) = d \<and> ((old AND NOT resetMask) OR setMask) AND (d OR c) = 0"
  from \<open>d \<noteq> 0\<close> obtain k where k: "bit d k"
    by (auto simp: bit_eq_iff)
  from assms(1) have "\<not> bit (resetMask AND d) k"
    by simp
  then have ck: "\<not> bit resetMask k"
    using k by (simp add: bit_and_iff)
  from a have "bit (old AND (d OR c)) k"
    using k by simp
  then have "bit old k"
    by (simp add: bit_and_iff)
  moreover have "k < 64"
    using bit_imp_le_length [OF k] by simp
  ultimately have "bit (((old AND NOT resetMask) OR setMask) AND (d OR c)) k"
    using k ck by (simp add: bit_and_iff bit_or_iff bit_not_iff)
  with a show False by simp
qed

lemma SetStateSub_idle:
  assumes "resetMask AND stDialed s = 0" and "stDialed s \<noteq> 0"
  shows "SetStateSub L s node setMask resetMask tmo =
           s\<lparr>ns := SetState (ns s) (clockNow s) node setMask resetMask tmo\<rparr>"
  using handler_idle_gen [OF assms, of "nodeState (ns s) node" "stConnected s" setMask]
  by (auto simp: SetStateSub_def Let_def dialTimeoutHandler_def nodeState_SetState)

text \<open>The disconnection of node 5 of the instance.\<close>

lemma ex_masks:
  "stDialed (exPool tv fac) = 4" "stConnected (exPool tv fac) = 8"
  "stRedialWait (exPool tv fac) = 16" "stHasValue (exPool tv fac) = 1"
  by (simp_all add: exPool_def)

lemma ex_session: "sessionValue exLib (exPool tv fac) 5 25 True = 20"
  by (simp add: sessionValue_def GetField_def exPool_def exNs_def exLib_def exVt_def)

lemma ex_charge:
  "chargeDial exLib 0 True (exHistory tv fac) =
     \<lparr>nh_dialCost = \<lparr>Base = 40000, Exp = 0\<rparr>, waitUntil = 0, lastTimeout = 500000000,
      totalValue = tv, waitFactor = fac\<rparr>"
  by (simp add: chargeDial_def exHistory_def exLib_def dialCost_def)

lemma ex_totalDialCost:
  "totalDialCostOf exLib 0 \<lparr>nh_dialCost = \<lparr>Base = 40000, Exp = 0\<rparr>, waitUntil = 0,
      lastTimeout = 500000000, totalValue = tv, waitFactor = fac\<rparr> = 40000"
  by (simp add: totalDialCostOf_def exLib_def dialCost_def)

lemma ex_refresh:
  "refreshTotalValue exLib () () 25 True 500000000
     \<lparr>nh_dialCost = \<lparr>Base = 40000, Exp = 0\<rparr>, waitUntil = 0, lastTimeout = 500000000,
      totalValue = tv, waitFactor = fac\<rparr> =
   (\<lparr>nh_dialCost = \<lparr>Base = 40000, Exp = 0\<rparr>, waitUntil = 0, lastTimeout = 500000000,
      totalValue = 25, waitFactor = fac\<rparr>, True)"
  by (simp add: refreshTotalValue_def exLib_def)

lemma ex_update_FT:
  "updateRedialWait exLib 7000000000 40000 20
     \<lparr>nh_dialCost = \<lparr>Base = 40000, Exp = 0\<rparr>, waitUntil = 0, lastTimeout = 500000000,
      totalValue = 25, waitFactor = 3\<rparr> =
   (\<lparr>nh_dialCost = \<lparr>Base = 40000, Exp = 0\<rparr>, waitUntil = 17000000000,
      lastTimeout = 500000000, totalValue = 25, waitFactor = 1\<rparr>, 10000000000)"
  using round64_dyadic [of 5 4]
  by (simp add: updateRedialWait_def Let_def dialCost_def float_minRedialWait ex_lib
      nextWaitFactor_def redialWaitStep_def int64_of_float64_def truncToZero_def
      float64_of_uint64_def)

lemma ex_weight_FT:
  "nodeWeight exLib \<lparr>nh_dialCost = \<lparr>Base = 40000, Exp = 0\<rparr>, waitUntil = 17000000000,
      lastTimeout = 500000000, totalValue = 25, waitFactor = 1\<rparr> 40000 = 625"
  by (simp add: nodeWeight_def nodeWeightMul_def float64_of_uint64_def
      uint64_of_float64_def truncToZero_def)

lemma ex_calc_FT: "fst (calculateNode exLib (exPool 20 3) 5 False True) = (625, 10000000000)"
  unfolding calculateNode_Some [OF ex_vt(1)] Let_def ex_vt ex_pool_fields ex_readNodeHistory
    ex_getTimeout ex_session fst_conv snd_conv
  by (simp add: ex_charge ex_totalDialCost ex_refresh ex_update_FT ex_weight_FT)

text \<open>
  C3. For a connected peer, with flag masks as the registration gives them (\<open>dialed\<close> and
  \<open>redialWait\<close> not empty, \<open>connected\<close> disjoint from \<open>dialed\<close>, \<open>redialWait\<close> disjoint from
  \<open>connected\<close> and \<open>hasValue\<close>): let \<open>(wt, wait)\<close> be the result of \<open>calculateNode\<close> with
  \<open>failedConnection = false\<close> and \<open>remoteDisconnect = true\<close>. After \<open>unregisterPeer\<close> the
  \<open>connectedStats\<close> field is nil; the state is the old one with \<open>connected\<close> cleared and
  \<open>redialWait\<close> set, and with \<open>hasValue\<close> set in addition exactly when \<open>wt \<ge> 100\<close>
  (otherwise \<open>hasValue\<close> is as before); a positive \<open>wait\<close> is the pending timeout of
  \<open>redialWait\<close>; and the node is marked for persistence exactly when \<open>wt \<ge> 100\<close>.
\<close>

theorem unregisterPeer_effect:
  assumes d0: "stDialed s \<noteq> 0" and r0: "stRedialWait s \<noteq> 0"
    and cd: "stConnected s AND stDialed s = 0"
    and rc: "stRedialWait s AND stConnected s = 0"
    and rh: "stRedialWait s AND stHasValue s = 0"
    and conn: "nodeState (ns s) p AND stConnected s \<noteq> 0"
    and calc: "calculateNode L s p False True = ((wt, wait), s1)"
    and res: "s' = unregisterPeer L s p"
  shows "GetField (ns s') p (connStatsField s) = None
       \<and> nodeState (ns s') p =
           ((nodeState (ns s) p AND NOT (stConnected s)) OR stRedialWait s)
             OR (if of_nat nodeWeightThreshold \<le> wt then stHasValue s else 0)
       \<and> (0 <s wait \<longrightarrow>
            \<lparr>toNode = p, toMask = stRedialWait s, toAt = clockNow s + wait\<rparr> \<in> set (timeouts (ns s')))
       \<and> dirty (ns s') =
           (if of_nat nodeWeightThreshold \<le> wt then insert p (dirty (ns s)) else dirty (ns s))"
proof -
  define old where "old = nodeState (ns s) p"
  define mid where "mid = (old AND NOT (stConnected s)) OR stRedialWait s"
  define s2 where "s2 = s1\<lparr>ns := SetField (ns s1) p (connStatsField s1) None\<rparr>"
  define s3 where "s3 = s2\<lparr>ns := SetState (ns s2) (clockNow s2) p (stRedialWait s2) (stConnected s2) wait\<rparr>"
  define s4 where "s4 = s3\<lparr>ns := Persist (SetState (ns s3) (clockNow s3) p (stHasValue s3) 0 0) p\<rparr>"
  have s1: "s1 = snd (calculateNode L s p False True)"
    by (simp add: calc)
  have f1: "stDialed s1 = stDialed s" "stConnected s1 = stConnected s"
    "stRedialWait s1 = stRedialWait s" "stHasValue s1 = stHasValue s"
    "clockNow s1 = clockNow s" "connStatsField s1 = connStatsField s"
    "nodeState (ns s1) p = old" "timeouts (ns s1) = timeouts (ns s)" "dirty (ns s1) = dirty (ns s)"
    unfolding s1 old_def by (rule calculateNode_frame)+
  have old0: "old \<noteq> 0"
    using conn unfolding old_def by auto
  have mid0: "mid \<noteq> 0"
    unfolding mid_def using r0 by (rule or_nonzero)
  have midold: "mid \<noteq> old"
    unfolding mid_def using rc conn unfolding old_def by (rule state_changes)
  have g2: "GetField (ns s2) p (connStatsField s) = None"
    using old0 by (simp add: s2_def f1 GetField_SetField_same)
  have n2: "nodeState (ns s2) p = old"
    by (simp add: s2_def f1)
  have e3: "SetStateSub L s2 p (stRedialWait s2) (stConnected s2) wait = s3"
    unfolding s3_def by (rule SetStateSub_idle) (simp_all add: s2_def f1 cd d0)
  have n3: "nodeState (ns s3) p = mid"
    by (simp add: s3_def nodeState_SetState n2 mid_def s2_def f1)
  have g3: "GetField (ns s3) p (connStatsField s) = None"
    using mid0 g2 by (simp add: s3_def GetField_SetState n2 mid_def s2_def f1)
  have d3: "dirty (ns s3) = dirty (ns s)"
    by (simp add: s3_def s2_def f1)
  have t3: "0 <s wait \<Longrightarrow>
      \<lparr>toNode = p, toMask = stRedialWait s, toAt = clockNow s + wait\<rparr> \<in> set (timeouts (ns s3))"
  proof -
    assume w: "0 <s wait"
    have "(nodeState (ns s2) p AND NOT (stConnected s)) OR stRedialWait s \<noteq> nodeState (ns s2) p"
      using midold by (simp add: n2 mid_def)
    then have "\<lparr>toNode = p, toMask = stRedialWait s, toAt = clockNow s + wait\<rparr>
        \<in> set (timeouts (SetState (ns s2) (clockNow s) p (stRedialWait s) (stConnected s) wait))"
      using w by (rule timeouts_SetState_new)
    then show ?thesis
      by (simp add: s3_def s2_def f1)
  qed
  have m3: "stHasValue s3 = stHasValue s" "stDialed s3 = stDialed s" "clockNow s3 = clockNow s"
    "vt s3 = vt s1"
    by (simp_all add: s3_def s2_def f1)
  have e4a: "SetStateSub L s3 p (stHasValue s3) 0 0 =
      s3\<lparr>ns := SetState (ns s3) (clockNow s3) p (stHasValue s3) 0 0\<rparr>"
    by (rule SetStateSub_idle) (simp_all add: m3 d0)
  have e4: "(let s' = SetStateSub L s3 p (stHasValue s3) 0 0 in s'\<lparr>ns := Persist (ns s') p\<rparr>) = s4"
    by (simp add: e4a s4_def)
  have n4: "nodeState (ns s4) p = mid OR stHasValue s"
    by (simp add: s4_def nodeState_SetState n3 m3)
  have g4: "GetField (ns s4) p (connStatsField s) = None"
  proof -
    have "(nodeState (ns s3) p AND NOT 0) OR stHasValue s3 \<noteq> 0"
      using mid0 by (simp add: n3 or_eq_0_iff)
    then have "GetField (SetState (ns s3) (clockNow s3) p (stHasValue s3) 0 0) p (connStatsField s) =
        GetField (ns s3) p (connStatsField s)"
      by (rule GetField_SetState)
    with g3 show ?thesis by (simp add: s4_def)
  qed
  have d4: "dirty (ns s4) = insert p (dirty (ns s))"
    by (simp add: s4_def d3)
  have t4: "0 <s wait \<Longrightarrow>
      \<lparr>toNode = p, toMask = stRedialWait s, toAt = clockNow s + wait\<rparr> \<in> set (timeouts (ns s4))"
  proof -
    assume w: "0 <s wait"
    let ?t = "\<lparr>toNode = p, toMask = stRedialWait s, toAt = clockNow s + wait\<rparr>"
    have "?t \<in> set (timeouts (SetState (ns s3) (clockNow s3) p (stHasValue s3) 0 0))"
      using t3 [OF w] by (rule timeouts_SetState_keep) (simp_all add: m3 rh r0)
    then show ?thesis by (simp add: s4_def)
  qed
  have u: "s' = (let s4' = (if of_nat nodeWeightThreshold \<le> wt then s4 else s3)
                 in s4'\<lparr>vt := vtUnregister L (vt s4') p\<rparr>)"
    unfolding res unregisterPeer_def calc
    by (simp add: Let_def e3 e4a s4_def flip: s2_def)
  show ?thesis
  proof (cases "of_nat nodeWeightThreshold \<le> wt")
    case True
    then have "ns s' = ns s4"
      by (simp add: u Let_def)
    with True g4 n4 t4 d4 show ?thesis
      by (simp add: mid_def old_def)
  next
    case False
    then have "ns s' = ns s3"
      by (simp add: u Let_def)
    with False g3 n3 t3 d3 show ?thesis
      by (simp add: mid_def old_def)
  qed
qed

theorem unregisterPeer_effect_witness:
  "stDialed (exPool 20 3) \<noteq> 0 \<and> stRedialWait (exPool 20 3) \<noteq> 0 \<and>
   stConnected (exPool 20 3) AND stDialed (exPool 20 3) = 0 \<and>
   stRedialWait (exPool 20 3) AND stConnected (exPool 20 3) = 0 \<and>
   stRedialWait (exPool 20 3) AND stHasValue (exPool 20 3) = 0 \<and>
   nodeState (ns (exPool 20 3)) 5 AND stConnected (exPool 20 3) \<noteq> 0 \<and>
   fst (calculateNode exLib (exPool 20 3) 5 False True) = (625, 10000000000) \<and>
   GetField (ns (unregisterPeer exLib (exPool 20 3) 5)) 5 (connStatsField (exPool 20 3)) = None \<and>
   nodeState (ns (unregisterPeer exLib (exPool 20 3) 5)) 5 = 17 \<and>
   \<lparr>toNode = 5, toMask = 16, toAt = 17000000000\<rparr>
     \<in> set (timeouts (ns (unregisterPeer exLib (exPool 20 3) 5))) \<and>
   dirty (ns (unregisterPeer exLib (exPool 20 3) 5)) = {5}"
proof -
  have d0: "stDialed (exPool 20 3) \<noteq> 0" and r0: "stRedialWait (exPool 20 3) \<noteq> 0"
    and cd: "stConnected (exPool 20 3) AND stDialed (exPool 20 3) = 0"
    and rc: "stRedialWait (exPool 20 3) AND stConnected (exPool 20 3) = 0"
    and rh: "stRedialWait (exPool 20 3) AND stHasValue (exPool 20 3) = 0"
    and conn: "nodeState (ns (exPool 20 3)) 5 AND stConnected (exPool 20 3) \<noteq> 0"
    by (simp_all add: ex_masks ex_nodeState)
  have calc: "calculateNode exLib (exPool 20 3) 5 False True =
      ((625, 10000000000), snd (calculateNode exLib (exPool 20 3) 5 False True))"
    using ex_calc_FT by (simp add: prod_eq_iff)
  have w: "(0 :: int64) <s 10000000000"
    by (simp add: word_sless_alt)
  have th: "(of_nat nodeWeightThreshold :: uint64) \<le> 625"
    by (simp add: nodeWeightThreshold_def)
  note e = unregisterPeer_effect [OF d0 r0 cd rc rh conn calc refl]
  have g: "GetField (ns (unregisterPeer exLib (exPool 20 3) 5)) 5 (connStatsField (exPool 20 3)) = None"
    using e by blast
  have n: "nodeState (ns (unregisterPeer exLib (exPool 20 3) 5)) 5 = 17"
    using e th by (simp add: ex_masks ex_nodeState)
  have t: "\<lparr>toNode = 5, toMask = 16, toAt = 17000000000\<rparr>
     \<in> set (timeouts (ns (unregisterPeer exLib (exPool 20 3) 5)))"
    using e w by (simp add: ex_masks ex_pool_fields)
  have d: "dirty (ns (unregisterPeer exLib (exPool 20 3) 5)) = {5}"
    using e th by (simp add: exPool_def exNs_def)
  show ?thesis
    using d0 r0 cd rc rh conn ex_calc_FT g n t d by blast
qed

subsection \<open>Persistence across a restart\<close>

text \<open>What a stored record contains, and what loading reads from it.\<close>

lemma savedFlagNames_mem:
  "nm \<in> set (savedFlagNames fs i st timed) \<longleftrightarrow>
     (\<exists>k<length fs. flagName (fs ! k) = nm \<and> flagPersistent (fs ! k) \<and> bit st (i + k)
        \<and> \<not> bit timed (i + k))"
proof (induction fs arbitrary: i)
  case Nil
  then show ?case by simp
next
  case (Cons f fs)
  show ?case
    by (auto simp: Cons.IH less_Suc_eq_0_disj)
qed

lemma loadFlags_bit:
  "bit (loadFlags fs i names) j \<longleftrightarrow>
     j < 64 \<and> (\<exists>k<length fs. j = i + k \<and> flagPersistent (fs ! k) \<and> flagName (fs ! k) \<in> set names)"
proof (induction fs arbitrary: i)
  case Nil
  then show ?case by simp
next
  case (Cons f fs)
  show ?case
    by (auto simp: Cons.IH less_Suc_eq_0_disj bit_set_bit_iff dest: bit_imp_le_length)
qed

lemma saveFields_lookup:
  assumes "distinct (map fieldName ds)" and "k < length ds"
    and "fieldCodec (ds ! k) = Some (enc, dec)" and "vals (i + k) = Some v" and "enc v = Inr bs"
  shows "map_of (saveFields ds i vals) (fieldName (ds ! k)) = Some bs"
  using assms
proof (induction ds arbitrary: i k)
  case Nil
  then show ?case by simp
next
  case (Cons d ds)
  show ?case
  proof (cases k)
    case 0
    with Cons.prems show ?thesis by simp
  next
    case (Suc k')
    from Cons.prems Suc have ne: "fieldName d \<noteq> fieldName (ds ! k')"
      by auto
    have ih: "map_of (saveFields ds (Suc i) vals) (fieldName (ds ! k')) = Some bs"
      using Cons.prems Suc by (intro Cons.IH) simp_all
    show ?thesis
      using ne ih Suc by (simp split: option.splits sum.splits)
  qed
qed

lemma loadFields_value:
  assumes "loadFields ds i saved = Some vals" and "k < length ds"
    and "fieldCodec (ds ! k) = Some (enc, dec)" and "map_of saved (fieldName (ds ! k)) = Some bs"
  shows "vals (i + k) = Some (fst (dec bs)) \<and> snd (dec bs) = None"
  using assms
proof (induction ds arbitrary: i k vals)
  case Nil
  then show ?case by simp
next
  case (Cons d ds)
  from Cons.prems(1) obtain vals0 where v0: "loadFields ds (Suc i) saved = Some vals0"
    by (auto split: option.splits)
  show ?case
  proof (cases k)
    case 0
    with Cons.prems v0 show ?thesis
      by (auto split: option.splits prod.splits)
  next
    case (Suc k')
    have ih: "vals0 (Suc i + k') = Some (fst (dec bs)) \<and> snd (dec bs) = None"
      using v0 Cons.prems Suc by (intro Cons.IH) simp_all
    have "vals (Suc i + k') = vals0 (Suc i + k')"
      using Cons.prems(1) v0 by (auto split: option.splits prod.splits)
    with ih Suc show ?thesis by simp
  qed
qed

lemma distinct_names_index:
  assumes "distinct (map f xs)" and "i < length xs" and "k < length xs" and "f (xs ! k) = f (xs ! i)"
  shows "k = i"
  using assms nth_eq_iff_index_eq [of "map f xs" k i] by simp

lemma loadFields_total:
  assumes "\<forall>d \<in> set ds. \<forall>enc dec bs. fieldCodec d = Some (enc, dec) \<and>
             map_of saved (fieldName d) = Some bs \<longrightarrow> snd (dec bs) = None"
  shows "\<exists>vals. loadFields ds i saved = Some vals"
  using assms
proof (induction ds arbitrary: i)
  case Nil
  then show ?case by simp
next
  case (Cons d ds)
  from Cons.prems have "\<exists>vals. loadFields ds (Suc i) saved = Some vals"
    by (intro Cons.IH) simp
  then obtain vals where v: "loadFields ds (Suc i) saved = Some vals"
    by blast
  show ?case
  proof (cases "fieldCodec d")
    case None
    with v show ?thesis by simp
  next
    case (Some c)
    obtain enc dec where c: "c = (enc, dec)"
      by (cases c)
    show ?thesis
    proof (cases "map_of saved (fieldName d)")
      case None
      with v Some c show ?thesis by simp
    next
      case (Some bs)
      with Cons.prems \<open>fieldCodec d = Some c\<close> c have "snd (dec bs) = None"
        by simp
      with v Some \<open>fieldCodec d = Some c\<close> c show ?thesis
        by (cases "dec bs") simp
    qed
  qed
qed

lemma saveFields_origin:
  assumes "map_of (saveFields ds i vals) nm = Some bs"
  shows "\<exists>k enc dec v. k < length ds \<and> fieldName (ds ! k) = nm \<and>
           fieldCodec (ds ! k) = Some (enc, dec) \<and> vals (i + k) = Some v \<and> enc v = Inr bs"
  using assms
proof (induction ds arbitrary: i)
  case Nil
  then show ?case by simp
next
  case (Cons d ds)
  let ?here = "(case fieldCodec d of None \<Rightarrow> []
      | Some (enc, dec) \<Rightarrow>
          (case vals i of None \<Rightarrow> []
           | Some v \<Rightarrow> (case enc v of Inl e \<Rightarrow> [] | Inr bs \<Rightarrow> [(fieldName d, bs)])))"
  show ?case
  proof (cases "map_of ?here nm")
    case None
    with Cons.prems have "map_of (saveFields ds (Suc i) vals) nm = Some bs"
      by (simp add: map_add_def)
    from Cons.IH [OF this] obtain k enc dec v where
      "k < length ds" "fieldName (ds ! k) = nm" "fieldCodec (ds ! k) = Some (enc, dec)"
      "vals (Suc i + k) = Some v" "enc v = Inr bs"
      by blast
    then have "Suc k < length (d # ds) \<and> fieldName ((d # ds) ! Suc k) = nm \<and>
        fieldCodec ((d # ds) ! Suc k) = Some (enc, dec) \<and> vals (i + Suc k) = Some v \<and> enc v = Inr bs"
      by simp
    then show ?thesis by blast
  next
    case (Some bs')
    with Cons.prems have eq: "bs' = bs"
      by (simp add: map_add_def)
    from Some obtain c where c: "fieldCodec d = Some c"
      by (cases "fieldCodec d") simp_all
    obtain enc dec where ed: "c = (enc, dec)"
      by (cases c)
    from Some c ed obtain v where v: "vals i = Some v"
      by (cases "vals i") simp_all
    from Some c ed v obtain b where b: "enc v = Inr b"
      by (cases "enc v") simp_all
    from Some c ed v b have "fieldName d = nm" and "b = bs'"
      by (simp_all split: if_splits)
    with c ed v b have "fieldCodec d = Some (enc, dec)" "vals i = Some v"
      "enc v = Inr bs'" "fieldName d = nm"
      by simp_all
    then have "0 < length (d # ds) \<and> fieldName ((d # ds) ! 0) = nm \<and>
        fieldCodec ((d # ds) ! 0) = Some (enc, dec) \<and> vals (i + 0) = Some v \<and> enc v = Inr bs"
      using eq by simp
    then show ?thesis by blast
  qed
qed

lemma map_of_filter_names:
  "nm \<in> A \<Longrightarrow> map_of (filter (\<lambda>e. fst e \<notin> A) prev) nm = None"
  by (induction prev) auto

lemma loadFlags_empty: "loadFlags fs i [] = 0"
  by (induction fs arbitrary: i) simp_all

lemma restart_node:
  assumes "nodes m node = Some ni"
    and "r = saveNode S (timedBits (timeouts m) node)
               (case db node of None \<Rightarrow> [] | Some r0 \<Rightarrow> savedFields r0) ni"
    and "loadFields (Fields S') 0 (savedFields r) = Some vals"
  shows "nodes (Start S' (Stop S m db)) node =
           (if savedFlags r = [] \<and> savedFields r = [] then None
            else Some \<lparr>state = loadFlags (Flags S') 0 (savedFlags r), nodeFields = vals\<rparr>)"
  using assms
  by (simp add: Start_def Stop_def Let_def loadNode_def)

lemma stored_decodes:
  assumes "distinct (map fieldName (Fields S))"
    and "\<forall>d \<in> set (Fields S'). fieldCodec d \<noteq> None \<longrightarrow> d \<in> set (Fields S)"
    and "\<forall>i enc dec v bs. i < length (Fields S) \<and> fieldCodec (Fields S ! i) = Some (enc, dec) \<and>
           nodeFields ni i = Some v \<and> enc v = Inr bs \<longrightarrow> snd (dec bs) = None"
  shows "\<exists>vals. loadFields (Fields S') 0 (savedFields (saveNode S timed prev ni)) = Some vals"
proof (rule loadFields_total, intro ballI allI impI)
  fix d enc dec bs
  assume d: "d \<in> set (Fields S')"
    and h: "fieldCodec d = Some (enc, dec) \<and>
            map_of (savedFields (saveNode S timed prev ni)) (fieldName d) = Some bs"
  from d h assms(2) have dS: "d \<in> set (Fields S)"
    by auto
  then obtain k0 where k0: "k0 < length (Fields S)" "Fields S ! k0 = d"
    by (auto simp: in_set_conv_nth)
  have "fieldName d \<in> set (map fieldName (Fields S))"
    using dS by simp
  then have "map_of (filter (\<lambda>e. fst e \<notin> set (map fieldName (Fields S))) prev) (fieldName d) = None"
    by (rule map_of_filter_names)
  with h have "map_of (saveFields (Fields S) 0 (nodeFields ni)) (fieldName d) = Some bs"
    by (simp add: saveNode_def map_add_def split: option.splits)
  from saveFields_origin [OF this] obtain k enc' dec' v where
    k: "k < length (Fields S)" "fieldName (Fields S ! k) = fieldName d"
      "fieldCodec (Fields S ! k) = Some (enc', dec')" "nodeFields ni (0 + k) = Some v" "enc' v = Inr bs"
    by blast
  have "k = k0"
    using assms(1) k0(1) k(1) by (rule distinct_names_index) (simp add: k(2) k0(2))
  with k k0 h have "fieldCodec (Fields S ! k) = Some (enc, dec)" "enc v = Inr bs"
    by simp_all
  with assms(3) k(1,4) show "snd (dec bs) = None"
    by simp
qed

text \<open>
  C7, as amended. Let a machine with setup \<open>S\<close>, whose flag names and field names are
  distinct, be stopped and a machine with setup \<open>S'\<close> be started on the stored records,
  where every persistent field definition of \<open>S'\<close> is one of \<open>S\<close>, in any order. Take a
  node that was tracked, and let the decoder of each of its persistent fields accept what
  the encoder made of the value (a record that fails to decode is treated as absent).
  If a flag has index \<open>i\<close> in \<open>S\<close> and the same definition has index \<open>j\<close> in \<open>S'\<close>, then
  bit \<open>j\<close> is set after the restart exactly when the flag is persistent and bit \<open>i\<close> was
  set before and was not under a pending timeout. If a persistent field has index \<open>i\<close> in
  \<open>S\<close> and the same definition has index \<open>j\<close> in \<open>S'\<close>, and the field held a value that its
  encoder accepts, then \<open>GetField\<close> at \<open>j\<close> returns the decoding of the encoding of that
  value: the value itself when the codec is exact. With \<open>S' = S\<close> and \<open>j = i\<close> this is the
  restart under the same setup.
\<close>

theorem persistent_restart:
  assumes "distinct (map flagName (Flags S))" and "distinct (map fieldName (Fields S))"
    and "\<forall>d \<in> set (Fields S'). fieldCodec d \<noteq> None \<longrightarrow> d \<in> set (Fields S)"
    and "nodes m node = Some ni"
    and "\<forall>i enc dec v bs. i < length (Fields S) \<and> fieldCodec (Fields S ! i) = Some (enc, dec) \<and>
           nodeFields ni i = Some v \<and> enc v = Inr bs \<longrightarrow> snd (dec bs) = None"
    and "m' = Start S' (Stop S m db)"
  shows "(\<forall>i j. i < length (Flags S) \<and> j < length (Flags S') \<and> j < 64 \<and>
                Flags S' ! j = Flags S ! i \<longrightarrow>
                (bit (nodeState m' node) j \<longleftrightarrow>
                   flagPersistent (Flags S ! i) \<and> bit (state ni) i
                   \<and> \<not> bit (timedBits (timeouts m) node) i))
       \<and> (\<forall>i j enc dec v bs. i < length (Fields S) \<and> j < length (Fields S') \<and>
                Fields S' ! j = Fields S ! i \<and> fieldCodec (Fields S ! i) = Some (enc, dec) \<and>
                nodeFields ni i = Some v \<and> enc v = Inr bs \<longrightarrow>
                GetField m' node j = Some (fst (dec bs)))"
proof -
  let ?timed = "timedBits (timeouts m) node"
  define r where "r = saveNode S ?timed (case db node of None \<Rightarrow> [] | Some r0 \<Rightarrow> savedFields r0) ni"
  from stored_decodes [OF assms(2,3,5)] obtain vals where
    lf: "loadFields (Fields S') 0 (savedFields r) = Some vals"
    unfolding r_def by blast
  have nd: "nodes m' node =
      (if savedFlags r = [] \<and> savedFields r = [] then None
       else Some \<lparr>state = loadFlags (Flags S') 0 (savedFlags r), nodeFields = vals\<rparr>)"
    unfolding assms(6) using assms(4) r_def lf by (rule restart_node)
  have st: "nodeState m' node = loadFlags (Flags S') 0 (savedFlags r)"
    by (simp add: nodeState_def nd loadFlags_empty)
  have flags: "bit (nodeState m' node) j \<longleftrightarrow>
      flagPersistent (Flags S ! i) \<and> bit (state ni) i \<and> \<not> bit ?timed i"
    if h: "i < length (Flags S)" "j < length (Flags S')" "j < 64" "Flags S' ! j = Flags S ! i"
    for i j
  proof -
    have "bit (nodeState m' node) j \<longleftrightarrow> flagPersistent (Flags S ! i) \<and>
        flagName (Flags S ! i) \<in> set (savedFlagNames (Flags S) 0 (state ni) ?timed)"
      using h by (auto simp: st loadFlags_bit r_def saveNode_def)
    also have "\<dots> \<longleftrightarrow> flagPersistent (Flags S ! i) \<and>
        (\<exists>k<length (Flags S). flagName (Flags S ! k) = flagName (Flags S ! i) \<and>
        flagPersistent (Flags S ! k) \<and> bit (state ni) k \<and> \<not> bit ?timed k)"
      by (simp add: savedFlagNames_mem)
    also have "\<dots> \<longleftrightarrow> flagPersistent (Flags S ! i) \<and> bit (state ni) i \<and> \<not> bit ?timed i"
      using h(1) distinct_names_index [OF assms(1) h(1)] by blast
    finally show ?thesis .
  qed
  have fields: "GetField m' node j = Some (fst (dec bs))"
    if h: "i < length (Fields S)" "j < length (Fields S')" "Fields S' ! j = Fields S ! i"
      "fieldCodec (Fields S ! i) = Some (enc, dec)" "nodeFields ni i = Some v" "enc v = Inr bs"
    for i j enc dec v bs
  proof -
    have "map_of (saveFields (Fields S) 0 (nodeFields ni)) (fieldName (Fields S ! i)) = Some bs"
      using assms(2) h(1,4) _ h(6) by (rule saveFields_lookup) (simp add: h(5))
    then have mo: "map_of (savedFields r) (fieldName (Fields S' ! j)) = Some bs"
      by (simp add: r_def saveNode_def h(3))
    then have ne: "savedFields r \<noteq> []"
      by auto
    have c: "fieldCodec (Fields S' ! j) = Some (enc, dec)"
      by (simp add: h(3,4))
    from loadFields_value [OF lf h(2) c mo] have "vals j = Some (fst (dec bs))"
      by simp
    then show ?thesis
      using ne by (simp add: GetField_def nd)
  qed
  show ?thesis
    using flags fields by blast
qed

text \<open>The scenarios of the instance.\<close>

lemma ex_names: "decimal 0 = ''0''" "decimal 1 = ''1''" "decimal 2 = ''2''"
  by simp_all

lemma exSetup_eq:
  "exSetup = \<lparr>Flags = [NewPersistentFlag ''flag-0''],
              Fields = [NewPersistentField ''field-0'' (uint64FieldEnc (\<lambda>u. Inr (be8 u)))
                          (uint64FieldDec (\<lambda>bs. (of_be bs, None))),
                        NewPersistentField ''field-1'' stringFieldEnc stringFieldDec]\<rparr>"
  by (simp add: exSetup_def testSetup_def enumerate_eq_zip upt_rec [of 0] upt_rec [of 1] upt_rec [of 2])

lemma exSetupReordered_eq:
  "exSetupReordered =
     \<lparr>Flags = [NewPersistentFlag ''flag-1'', NewPersistentFlag ''flag-0''],
      Fields = [NewPersistentField ''field-1'' stringFieldEnc stringFieldDec,
                NewPersistentField ''field-0'' (uint64FieldEnc (\<lambda>u. Inr (be8 u)))
                  (uint64FieldDec (\<lambda>bs. (of_be bs, None))),
                NewField ''field-2'']\<rparr>"
  by (simp add: exSetupReordered_def testSetup_def enumerate_eq_zip Let_def
      upt_rec [of 0] upt_rec [of 1] upt_rec [of 2] upt_rec [of 3])

lemma string_round_trip:
  "stringFieldEnc (FString s) = Inr bs \<Longrightarrow> stringFieldDec bs = (FString s, None)"
proof -
  have "char_of (unat (of_nat (of_char c) :: 8 word)) = c" for c :: char
  proof -
    have "of_char c < (256 :: nat)"
      by simp
    then have "unat (of_nat (of_char c) :: 8 word) = of_char c"
      by (simp add: unat_of_nat)
    then show ?thesis by simp
  qed
  then have "map (\<lambda>b. char_of (unat b)) (map (\<lambda>c. of_nat (of_char c) :: 8 word) s) = s"
    by (simp add: comp_def)
  then show "stringFieldEnc (FString s) = Inr bs \<Longrightarrow> stringFieldDec bs = (FString s, None)"
    by (auto simp: stringFieldEnc_def stringFieldDec_def)
qed

lemma ex_hello:
  "stringFieldEnc (FString ''hello world'' :: nat fieldValue) =
     Inr [104, 101, 108, 108, 111, 32, 119, 111, 114, 108, 100]"
  by (simp add: stringFieldEnc_def)

lemma ex_hello_dec:
  "(stringFieldDec [104, 101, 108, 108, 111, 32, 119, 111, 114, 108, 100] :: nat fieldValue \<times> error option) =
     (FString ''hello world'', None)"
  using ex_hello by (rule string_round_trip)

lemma ex_hundred:
  "uint64FieldEnc (\<lambda>u. Inr (be8 u)) (FUint64 100 :: nat fieldValue) = Inr [0, 0, 0, 0, 0, 0, 0, 100]"
  "(uint64FieldDec (\<lambda>bs. (of_be bs, None)) [0, 0, 0, 0, 0, 0, 0, 100] :: nat fieldValue \<times> error option) =
     (FUint64 100, None)"
  by (simp_all add: uint64FieldEnc_def uint64FieldDec_def be8_def of_be_def)

lemma ex_empty_machine:
  "Start S emptyDb = \<lparr>nodes = (\<lambda>node. None), timeouts = [], dirty = {}\<rparr>"
  by (simp add: Start_def emptyDb_def)

lemma ex_test_nodes:
  "nodes exTestNs 9 =
     Some \<lparr>state = 1,
            nodeFields = (\<lambda>i. None)(0 \<mapsto> FUint64 100, 1 \<mapsto> FString ''hello world'')\<rparr>"
  "timeouts exTestNs = []"
  by (simp_all add: exTestNs_def ex_empty_machine SetState_def SetField_def nodeState_def Let_def
      removeTimeouts_def)

lemma ex_stop:
  "Stop exSetup exTestNs emptyDb 9 =
     Some \<lparr>savedFlags = [''flag-0''],
            savedFields = [(''field-0'', [0, 0, 0, 0, 0, 0, 0, 100]),
                           (''field-1'', [104, 101, 108, 108, 111, 32, 119, 111, 114, 108, 100])]\<rparr>"
  by (simp add: Stop_def emptyDb_def ex_test_nodes saveNode_def exSetup_eq NewPersistentFlag_def
      NewPersistentField_def ex_hundred ex_hello Let_def)

lemma ex_timed_nodes:
  "nodes exTimedNs 7 = Some \<lparr>state = 1, nodeFields = (\<lambda>i. None)\<rparr>"
  "timeouts exTimedNs = [\<lparr>toNode = 7, toMask = 1, toAt = 1000000000\<rparr>]"
  by (simp_all add: exTimedNs_def ex_empty_machine SetState_def nodeState_def Let_def
      removeTimeouts_def word_sless_alt)

lemma ex_timed_restart:
  "nodes (Start exSetup (Stop exSetup exTimedNs emptyDb)) 7 = None"
  by (simp add: Start_def Stop_def emptyDb_def ex_timed_nodes saveNode_def exSetup_eq NewPersistentFlag_def
      NewPersistentField_def Let_def)

lemma ex_toEnc_3:
  "toEnc exLib (exHistory 20 3) =
     \<lparr>DialCost = \<lparr>Base = 30000, Exp = 0\<rparr>, WaitFactor = 768, WaitUntil = 0\<rparr>"
  by (simp add: toEnc_def ex_history uint64_of_float64_def truncToZero_def)

lemma ex_history_codec:
  "nodeHistoryEncoder exRlp exLib (FNodeHistory (exHistory 20 3) :: nat fieldValue) =
     Inr [0,0,0,0,0,0,117,48, 0,0,0,0,0,0,0,0, 0,0,0,0,0,0,3,0, 0,0,0,0,0,0,0,0]"
  "(nodeHistoryDecoder exRlp [0,0,0,0,0,0,117,48, 0,0,0,0,0,0,0,0, 0,0,0,0,0,0,3,0, 0,0,0,0,0,0,0,0]
      :: nat fieldValue \<times> error option) =
     (FNodeHistory \<lparr>nh_dialCost = \<lparr>Base = 30000, Exp = 0\<rparr>, waitUntil = 0, lastTimeout = 0,
                    totalValue = 0, waitFactor = 3\<rparr>, None)"
  by (simp_all add: nodeHistoryEncoder_def nodeHistoryDecoder_def ex_toEnc_3 ex_encode ex_decode
      fromEnc_def float64_of_uint64_def)

lemma ex_pool_nodes:
  "nodes (exNs tv fac) 6 = Some \<lparr>state = 1, nodeFields = [0 \<mapsto> FNodeHistory (exHistory tv fac)]\<rparr>"
  "timeouts (exNs tv fac) = []"
  by (simp_all add: exNs_def)

lemma ex_pool_stop:
  "Stop (serverPoolSetup exRlp exLib) (exNs 20 3) emptyDb 6 =
     Some \<lparr>savedFlags = [''hasValue''],
            savedFields = [(''nodeHistory'',
              [0,0,0,0,0,0,117,48, 0,0,0,0,0,0,0,0, 0,0,0,0,0,0,3,0, 0,0,0,0,0,0,0,0])]\<rparr>"
  by (simp add: Stop_def emptyDb_def ex_pool_nodes saveNode_def serverPoolSetup_def sfHasValue_def
      sfSelected_def sfDialed_def sfConnected_def sfRedialWait_def sfAlwaysConnect_def
      sfiNodeHistory_def sfiConnectedStats_def NewPersistentFlag_def NewFlag_def
      NewPersistentField_def NewField_def ex_history_codec Let_def)

lemma ex_pool_restart:
  "GetField (Start (serverPoolSetup exRlp exLib)
              (Stop (serverPoolSetup exRlp exLib) (exNs 20 3) emptyDb)) 6 0 =
     Some (FNodeHistory \<lparr>nh_dialCost = \<lparr>Base = 30000, Exp = 0\<rparr>, waitUntil = 0, lastTimeout = 0,
                          totalValue = 0, waitFactor = 3\<rparr>)"
  by (simp add: GetField_def Start_def ex_pool_stop)
    (simp add: loadNode_def serverPoolSetup_def sfHasValue_def
      sfSelected_def sfDialed_def sfConnected_def sfRedialWait_def sfAlwaysConnect_def
      sfiNodeHistory_def sfiConnectedStats_def NewPersistentFlag_def NewFlag_def
      NewPersistentField_def NewField_def ex_history_codec)

text \<open>
  \<open>TestPersistentFields\<close>: after the restart with the exchanged setup, flag-0 is bit 1,
  field-0 is read at index 1 and field-1 at index 0.
\<close>

theorem persistent_restart_witness:
  "distinct (map flagName (Flags exSetup)) \<and> distinct (map fieldName (Fields exSetup)) \<and>
   filter (\<lambda>d. fieldCodec d \<noteq> None) (Fields exSetupReordered) =
     [Fields exSetup ! 1, Fields exSetup ! 0] \<and>
   nodes exTestNs 9 =
     Some \<lparr>state = 1, nodeFields = (\<lambda>i. None)(0 \<mapsto> FUint64 100, 1 \<mapsto> FString ''hello world'')\<rparr> \<and>
   bit (nodeState (Start exSetupReordered (Stop exSetup exTestNs emptyDb)) 9) 1 \<and>
   GetField (Start exSetupReordered (Stop exSetup exTestNs emptyDb)) 9 1 = Some (FUint64 100) \<and>
   GetField (Start exSetupReordered (Stop exSetup exTestNs emptyDb)) 9 0 =
     Some (FString ''hello world'')"
proof -
  let ?ni = "\<lparr>state = 1, nodeFields = (\<lambda>i. None)(0 \<mapsto> FUint64 100, 1 \<mapsto> FString ''hello world'')\<rparr>
              :: nat nodeInfo"
  let ?m' = "Start exSetupReordered (Stop exSetup exTestNs emptyDb) :: (nat, nat) NodeStateMachine"
  have d1: "distinct (map flagName (Flags exSetup))"
    by (simp add: exSetup_eq)
  have d2: "distinct (map fieldName (Fields exSetup))"
    by (simp add: exSetup_eq NewPersistentField_def)
  have sub: "\<forall>d \<in> set (Fields exSetupReordered). fieldCodec d \<noteq> None \<longrightarrow> d \<in> set (Fields exSetup)"
    by (simp add: exSetup_eq exSetupReordered_eq NewField_def)
  have ok: "\<forall>i enc dec v bs. i < length (Fields exSetup) \<and>
      fieldCodec (Fields exSetup ! i) = Some (enc, dec) \<and>
      nodeFields ?ni i = Some v \<and> enc v = Inr bs \<longrightarrow> snd (dec bs) = None"
    by (auto simp: exSetup_eq NewPersistentField_def less_Suc_eq uint64FieldDec_def
        stringFieldDec_def)
  note r = persistent_restart [OF d1 d2 sub ex_test_nodes(1) ok refl, where db = emptyDb]
  have f: "bit (nodeState ?m' 9) 1 \<longleftrightarrow>
      flagPersistent (Flags exSetup ! 0) \<and> bit (state ?ni) 0 \<and> \<not> bit (timedBits (timeouts exTestNs) 9) 0"
    by (rule r [THEN conjunct1, rule_format])
      (simp add: exSetup_eq exSetupReordered_eq NewPersistentFlag_def)
  have u: "GetField ?m' 9 1 =
      Some (fst (uint64FieldDec (\<lambda>bs. (of_be bs, None)) [0, 0, 0, 0, 0, 0, 0, 100]))"
    by (rule r [THEN conjunct2, rule_format, where i = 0 and v = "FUint64 100"
          and enc = "uint64FieldEnc (\<lambda>u. Inr (be8 u))"])
      (simp add: exSetup_eq exSetupReordered_eq NewPersistentField_def ex_hundred)
  have t: "GetField ?m' 9 0 =
      Some (fst (stringFieldDec [104, 101, 108, 108, 111, 32, 119, 111, 114, 108, 100]))"
    by (rule r [THEN conjunct2, rule_format, where i = 1 and v = "FString ''hello world''"
          and enc = stringFieldEnc])
      (simp add: exSetup_eq exSetupReordered_eq NewPersistentField_def ex_hello)
  have a: "bit (nodeState ?m' 9) 1"
    using f by (simp add: ex_test_nodes exSetup_eq NewPersistentFlag_def)
  have b: "GetField ?m' 9 1 = Some (FUint64 100)"
    using u by (simp only: ex_hundred fst_conv)
  have c: "GetField ?m' 9 0 = Some (FString ''hello world'')"
    using t by (simp only: ex_hello_dec fst_conv)
  have p: "filter (\<lambda>d. fieldCodec d \<noteq> None) (Fields exSetupReordered) =
      [Fields exSetup ! 1, Fields exSetup ! 0]"
    by (simp add: exSetup_eq exSetupReordered_eq NewField_def NewPersistentField_def)
  show ?thesis
    using d1 d2 p ex_test_nodes(1) a b c by blast
qed

text \<open>
  C7 as stated fails for a persistent flag set with a timeout, which is not saved (line
  119 of the test file: "state with timeout should not be saved"), and for a field whose
  codec is not exact: the \<open>nodeHistory\<close> of the pool comes back without \<open>lastTimeout\<close> and
  \<open>totalValue\<close>.
\<close>

theorem persistent_restart_counterexample:
  "(flagPersistent (Flags exSetup ! 0) \<and> bit (nodeState exTimedNs 7) 0 \<and>
    \<not> bit (nodeState (Start exSetup (Stop exSetup exTimedNs emptyDb)) 7) 0) \<and>
   (GetField (exNs 20 3) 6 0 = Some (FNodeHistory (exHistory 20 3)) \<and>
    totalValue (exHistory 20 3) = 20 \<and>
    GetField (Start (serverPoolSetup exRlp exLib)
               (Stop (serverPoolSetup exRlp exLib) (exNs 20 3) emptyDb)) 6 0 =
      Some (FNodeHistory \<lparr>nh_dialCost = \<lparr>Base = 30000, Exp = 0\<rparr>, waitUntil = 0, lastTimeout = 0,
                           totalValue = 0, waitFactor = 3\<rparr>))"
proof -
  have a: "flagPersistent (Flags exSetup ! 0)"
    by (simp add: exSetup_eq NewPersistentFlag_def)
  have b: "bit (nodeState exTimedNs 7) 0"
    by (simp add: nodeState_def ex_timed_nodes)
  have c: "\<not> bit (nodeState (Start exSetup (Stop exSetup exTimedNs emptyDb)) 7) 0"
    by (simp add: nodeState_def ex_timed_restart)
  have d: "GetField (exNs 20 3) 6 0 = Some (FNodeHistory (exHistory 20 3))"
    by (simp add: GetField_def ex_pool_nodes)
  have e: "totalValue (exHistory 20 3) = 20"
    by (simp add: ex_history)
  show ?thesis
    using a b c d e ex_pool_restart by blast
qed

subsection \<open>Selection excludes the flags of a dial\<close>

lemma pool_masks:
  "StateMask (serverPoolSetup R L) sfHasValue = 1"
  "StateMask (serverPoolSetup R L) sfSelected = 2"
  "StateMask (serverPoolSetup R L) sfDialed = 4"
  "StateMask (serverPoolSetup R L) sfConnected = 8"
  "StateMask (serverPoolSetup R L) sfRedialWait = 16"
  "StateMask (serverPoolSetup R L) sfAlwaysConnect = 32"
  by (simp_all add: StateMask_def serverPoolSetup_def sfHasValue_def sfSelected_def sfDialed_def
      sfConnected_def sfRedialWait_def sfAlwaysConnect_def NewFlag_def NewPersistentFlag_def)

lemma pool_disable_mask: "StatesMask (serverPoolSetup R L) disableSelection = 30"
  by (simp add: StatesMask_def disableSelection_def pool_masks)

lemma emission_bits:
  fixes st sel busy :: uint64
  assumes "st AND (sel OR busy) = 0" and "sel AND busy = 0" and "sel \<noteq> 0"
  shows "(st OR sel) AND sel \<noteq> 0" and "(st OR sel) AND busy = 0"
proof -
  have "(st AND sel) OR (st AND busy) = 0"
    using assms(1) by (simp add: bit.conj_disj_distrib)
  then have b: "st AND busy = 0"
    by (simp add: or_eq_0_iff)
  have "(st OR sel) AND sel = sel"
    by (rule bit_eqI) (auto simp: bit_and_iff bit_or_iff)
  then show "(st OR sel) AND sel \<noteq> 0"
    using assms(3) by simp
  have "(st OR sel) AND busy = (st AND busy) OR (sel AND busy)"
    by (simp add: bit.conj_disj_distrib2)
  then show "(st OR sel) AND busy = 0"
    using b assms(2) by simp
qed

lemma pool_selectors:
  assumes "sel = knownSelector (serverPoolSetup R L) \<or> sel = alwaysConnectSelector (serverPoolSetup R L)"
  shows "excludeMask sel = 2 OR 28" and "selectedMask sel = 2"
  using assms
  by (auto simp: knownSelector_def alwaysConnectSelector_def pool_disable_mask pool_masks)

lemma nodeState_SetState_other:
  "n' \<noteq> n \<Longrightarrow> nodeState (SetState m now n setMask resetMask tmo) n' = nodeState m n'"
  by (simp add: SetState_def Let_def nodeState_def)

lemma pool_selector_masks:
  "selectedMask (knownSelector (serverPoolSetup R L)) = 2"
  "excludeMask (knownSelector (serverPoolSetup R L)) = 30"
  "selectedMask (alwaysConnectSelector (serverPoolSetup R L)) = 2"
  "excludeMask (alwaysConnectSelector (serverPoolSetup R L)) = 30"
  by (simp_all add: knownSelector_def alwaysConnectSelector_def pool_masks pool_disable_mask)

lemma exclusive_pool:
  "exclusive (serverPoolSetup R L) st \<longleftrightarrow> (st AND 2 \<noteq> 0 \<longrightarrow> st AND 28 = 0)"
  by (simp add: exclusive_def pool_masks)

lemma unselect_other:
  "n' \<noteq> n \<Longrightarrow> nodeState (unselect sel m now n) n' = nodeState m n'"
  by (simp add: unselect_def Let_def nodeState_SetState_other)

lemma unselect_exclusive:
  assumes "selectedMask sel = 2" and "excludeMask sel = 30"
  shows "exclusive (serverPoolSetup R L) (nodeState (unselect sel m now n) n)"
proof -
  have e: "(30 :: uint64) AND NOT 2 = 28"
    by simp
  have "(x AND NOT 2) AND 2 = 0" for x :: uint64
    by (simp only: and.assoc bit.conj_cancel_left and_zero_eq)
  then have c: "(x AND - 3) AND 2 = 0" for x :: uint64
    by simp
  show ?thesis
    by (auto simp: unselect_def Let_def assms e exclusive_pool nodeState_SetState c)
qed

lemma unselect_idle:
  assumes "selectedMask sel = 2" and "excludeMask sel = 30"
    and "exclusive (serverPoolSetup R L) (nodeState m n)"
  shows "unselect sel m now n = m"
proof -
  have e: "(30 :: uint64) AND NOT 2 = 28"
    by simp
  show ?thesis
    using assms(3) by (auto simp: unselect_def Let_def assms(1,2) e exclusive_pool)
qed

lemma SetStateSel_exclusive:
  "exclusive (serverPoolSetup R L)
     (nodeState (SetStateSel (serverPoolSetup R L) m now n setMask resetMask tmo) n)"
proof -
  let ?S = "serverPoolSetup R L :: 'a Setup"
  let ?m1 = "unselect (knownSelector ?S) (SetState m now n setMask resetMask tmo) now n"
  have "exclusive ?S (nodeState ?m1 n)"
    by (rule unselect_exclusive) (simp_all add: pool_selector_masks)
  moreover from this have "unselect (alwaysConnectSelector ?S) ?m1 now n = ?m1"
    by (intro unselect_idle) (simp_all add: pool_selector_masks)
  ultimately show ?thesis
    by (simp add: SetStateSel_def)
qed

lemma SetStateSel_other:
  "n' \<noteq> n \<Longrightarrow> nodeState (SetStateSel S m now n setMask resetMask tmo) n' = nodeState m n'"
  by (simp add: SetStateSel_def unselect_other nodeState_SetState_other)

lemma emit_exclusive:
  assumes "sel = knownSelector (serverPoolSetup R L) \<or> sel = alwaysConnectSelector (serverPoolSetup R L)"
    and "exclusive (serverPoolSetup R L) (nodeState m n)"
  shows "exclusive (serverPoolSetup R L) (nodeState (emit sel m now n) n)"
proof (cases "candidate sel (nodeState m n)")
  case False
  with assms(2) show ?thesis by (simp add: emit_def)
next
  case True
  have ps: "excludeMask sel = 2 OR 28" "selectedMask sel = 2"
    using assms(1) by (rule pool_selectors)+
  have c: "nodeState m n AND (2 OR 28) = 0"
    using True by (simp add: candidate_def ps)
  have d: "(2 :: uint64) AND 28 = 0" and z: "(2 :: uint64) \<noteq> 0"
    by simp_all
  have "nodeState (emit sel m now n) n = nodeState m n OR 2"
    using True by (simp add: emit_def ps nodeState_SetState)
  then show ?thesis
    using emission_bits(2) [OF c d z] by (simp add: exclusive_pool)
qed

lemma emit_other: "n' \<noteq> n \<Longrightarrow> nodeState (emit sel m now n) n' = nodeState m n'"
  by (simp add: emit_def nodeState_SetState_other)

lemma Start_exclusive:
  "exclusive (serverPoolSetup R L) (nodeState (Start (serverPoolSetup R L) db) n)"
proof -
  have "\<not> bit (loadFlags (Flags (serverPoolSetup R L)) 0 names) 1" for names
    unfolding loadFlags_bit by (simp add: serverPoolSetup_def sfSelected_def NewFlag_def)
  then have "\<not> bit (nodeState (Start (serverPoolSetup R L) db) n) 1"
    by (simp add: nodeState_def Start_def loadNode_def split: option.splits)
  then have "nodeState (Start (serverPoolSetup R L) db) n AND 2 ^ 1 = 0"
    using and_exp_eq_0_iff_not_bit [of "nodeState (Start (serverPoolSetup R L) db) n" 1] by blast
  then have "nodeState (Start (serverPoolSetup R L) db) n AND 2 = 0"
    by simp
  then show ?thesis
    by (simp add: exclusive_pool)
qed

lemma step_exclusive:
  assumes "\<forall>n. exclusive (serverPoolSetup R L) (nodeState m n)"
  shows "exclusive (serverPoolSetup R L) (nodeState (step (serverPoolSetup R L) now ev m) n)"
proof (cases ev)
  case (Emission weighted n0)
  show ?thesis
  proof (cases "n = n0")
    case True
    have "exclusive (serverPoolSetup R L)
        (nodeState (emit (if weighted then knownSelector (serverPoolSetup R L)
                          else alwaysConnectSelector (serverPoolSetup R L)) m now n0) n0)"
      using assms by (intro emit_exclusive) simp_all
    then show ?thesis
      by (simp add: Emission True)
  next
    case False
    then show ?thesis
      using assms by (simp add: Emission emit_other)
  qed
next
  case (PoolSetState k n0 tmo)
  show ?thesis
    using assms
    by (cases "n = n0") (simp_all add: PoolSetState SetStateSel_exclusive SetStateSel_other)
next
  case (TimerExpiry k)
  show ?thesis
    using assms
    by (cases "n = toNode (timeouts m ! k)")
      (simp_all add: TimerExpiry SetStateSel_exclusive SetStateSel_other)
next
  case (FieldWrite n0 idx v)
  then show ?thesis using assms by simp
next
  case (PersistNode n0)
  then show ?thesis using assms by (simp add: nodeState_def Persist_def)
qed

lemma run_exclusive:
  "exclusive (serverPoolSetup R L) (nodeState (run (serverPoolSetup R L) db evs) n)"
proof (induction evs arbitrary: n rule: rev_induct)
  case Nil
  show ?case by (simp add: run_def Start_exclusive)
next
  case (snoc e evs)
  obtain now ev where e: "e = (now, ev)"
    by (cases e)
  have "run (serverPoolSetup R L) db (evs @ [e]) =
      step (serverPoolSetup R L) now ev (run (serverPoolSetup R L) db evs)"
    by (simp add: run_def e)
  then show ?case
    using snoc.IH by (simp add: step_exclusive)
qed

lemma nodeState_SetStateSel:
  "nodeState (SetStateSel (serverPoolSetup R L) m now n setMask resetMask tmo) n =
     (let x = (nodeState m n AND NOT resetMask) OR setMask
      in if x AND 2 \<noteq> 0 \<and> x AND 28 \<noteq> 0 then x AND NOT 2 else x)"
proof -
  let ?S = "serverPoolSetup R L :: 'b Setup"
  let ?m1 = "unselect (knownSelector ?S) (SetState m now n setMask resetMask tmo) now n"
  have e: "(30 :: uint64) AND NOT 2 = 28"
    by simp
  have "exclusive ?S (nodeState ?m1 n)"
    by (rule unselect_exclusive) (simp_all add: pool_selector_masks)
  then have "unselect (alwaysConnectSelector ?S) ?m1 now n = ?m1"
    by (intro unselect_idle) (simp_all add: pool_selector_masks)
  then have "nodeState (SetStateSel ?S m now n setMask resetMask tmo) n = nodeState ?m1 n"
    by (simp add: SetStateSel_def)
  also have "\<dots> = (let x = (nodeState m n AND NOT resetMask) OR setMask
      in if x AND 2 \<noteq> 0 \<and> x AND 28 \<noteq> 0 then x AND NOT 2 else x)"
    by (simp add: unselect_def Let_def pool_selector_masks e nodeState_SetState)
  finally show ?thesis .
qed

lemma busy_set_clears_selected:
  fixes x setMask :: uint64
  assumes "setMask AND 28 \<noteq> 0"
  shows "(let y = x OR setMask in if y AND 2 \<noteq> 0 \<and> y AND 28 \<noteq> 0 then y AND NOT 2 else y) AND 2 = 0"
proof -
  have "(x OR setMask) AND 28 = (x AND 28) OR (setMask AND 28)"
    by (simp add: bit.conj_disj_distrib2)
  then have b: "(x OR setMask) AND 28 \<noteq> 0"
    using assms by (simp add: or_eq_0_iff)
  have "(y AND NOT 2) AND 2 = 0" for y :: uint64
    by (simp only: and.assoc bit.conj_cancel_left and_zero_eq)
  then have c: "(y AND - 3) AND 2 = 0" for y :: uint64
    by simp
  show ?thesis
    using b by (simp add: Let_def c)
qed

text \<open>
  C6. Take any run of the pool's state machine: started from any stored records and
  continued by any sequence of emissions of the two selectors, \<open>SetState\<close> calls of the
  pool, timer expiries, field writes and persist marks. In the state it reaches, a node
  that holds \<open>selected\<close> holds none of \<open>dialed\<close>, \<open>connected\<close> and \<open>redialWait\<close>; and a
  \<open>SetState\<close> call of the pool that sets one of these three leaves the node without
  \<open>selected\<close>. The selectors contribute the exclusion at the emission (the disable mask of
  line 96) and the reaction that unselects; \<open>selected\<close> is not persistent, so no stored
  record brings it back.
\<close>

theorem selection_exclusive:
  assumes "S = serverPoolSetup R L" and "m = run S db evs"
    and "busy = StateMask S sfDialed OR StateMask S sfConnected OR StateMask S sfRedialWait"
  shows "(nodeState m node AND StateMask S sfSelected \<noteq> 0 \<longrightarrow> nodeState m node AND busy = 0)
       \<and> (k < length (poolTransitions S) \<and> fst (poolTransitions S ! k) AND busy \<noteq> 0 \<longrightarrow>
            nodeState (step S now (PoolSetState k node tmo) m) node AND StateMask S sfSelected = 0)"
proof -
  have busy: "busy = 28"
    by (simp add: assms(1,3) pool_masks)
  have "exclusive S (nodeState m node)"
    unfolding assms(1,2) by (rule run_exclusive)
  then have a: "nodeState m node AND StateMask S sfSelected \<noteq> 0 \<longrightarrow> nodeState m node AND busy = 0"
    by (simp add: exclusive_def assms(3))
  have b: "nodeState (step S now (PoolSetState k node tmo) m) node AND StateMask S sfSelected = 0"
    if "k < length (poolTransitions S)" "fst (poolTransitions S ! k) AND busy \<noteq> 0"
    using that busy_set_clears_selected [of "fst (poolTransitions S ! k)"
        "nodeState m node AND NOT (snd (poolTransitions S ! k))"]
    by (simp add: assms(1) nodeState_SetStateSel pool_masks busy)
  show ?thesis
    using a b by blast
qed

lemma ex_run_trusted:
  "nodeState (run (serverPoolSetup exRlp exLib) emptyDb exTrusted) (7 :: nat) = 34"
  by (simp add: run_def exTrusted_def poolTransitions_def pool_masks emit_def candidate_def
      pool_selector_masks alwaysConnectSelector_def pool_disable_mask nodeState_SetState
      nodeState_SetStateSel ex_empty_machine)
    (simp add: nodeState_def)

lemma ex_run_dialed:
  "nodeState (run (serverPoolSetup exRlp exLib) emptyDb exDialed) (7 :: nat) = 36"
proof -
  have "run (serverPoolSetup exRlp exLib) emptyDb exDialed =
      step (serverPoolSetup exRlp exLib) 2000000000 (PoolSetState 0 (7 :: nat) (second * 10))
        (run (serverPoolSetup exRlp exLib) emptyDb exTrusted)"
    by (simp add: run_def exDialed_def)
  then show ?thesis
    by (simp add: poolTransitions_def pool_masks nodeState_SetStateSel ex_run_trusted)
qed

theorem selection_exclusive_witness:
  "nodeState (run (serverPoolSetup exRlp exLib) emptyDb exTrusted) (7 :: nat) = 34 \<and>
   (34 :: uint64) AND StateMask (serverPoolSetup exRlp exLib) sfSelected \<noteq> 0 \<and>
   (34 :: uint64) AND (StateMask (serverPoolSetup exRlp exLib) sfDialed
      OR StateMask (serverPoolSetup exRlp exLib) sfConnected
      OR StateMask (serverPoolSetup exRlp exLib) sfRedialWait) = 0 \<and>
   0 < length (poolTransitions (serverPoolSetup exRlp exLib)) \<and>
   fst (poolTransitions (serverPoolSetup exRlp exLib) ! 0)
     AND (StateMask (serverPoolSetup exRlp exLib) sfDialed
      OR StateMask (serverPoolSetup exRlp exLib) sfConnected
      OR StateMask (serverPoolSetup exRlp exLib) sfRedialWait) \<noteq> 0 \<and>
   nodeState (run (serverPoolSetup exRlp exLib) emptyDb exDialed) (7 :: nat) = 36 \<and>
   (36 :: uint64) AND StateMask (serverPoolSetup exRlp exLib) sfSelected = 0"
proof -
  let ?S = "serverPoolSetup exRlp exLib :: nat Setup"
  let ?busy = "StateMask ?S sfDialed OR StateMask ?S sfConnected OR StateMask ?S sfRedialWait"
  note c = selection_exclusive [OF refl refl refl, where R = exRlp and L = exLib and db = emptyDb
      and evs = exTrusted and node = "7 :: nat" and k = 0 and now = 2000000000
      and tmo = "second * 10"]
  have s: "(34 :: uint64) AND StateMask ?S sfSelected \<noteq> 0"
    by (simp add: pool_masks)
  have k: "0 < length (poolTransitions ?S)" "fst (poolTransitions ?S ! 0) AND ?busy \<noteq> 0"
    by (simp_all add: poolTransitions_def pool_masks)
  have d: "run ?S emptyDb exDialed =
      step ?S 2000000000 (PoolSetState 0 (7 :: nat) (second * 10)) (run ?S emptyDb exTrusted)"
    by (simp add: run_def exDialed_def)
  have a: "(34 :: uint64) AND ?busy = 0"
    using c s unfolding ex_run_trusted by blast
  have b: "nodeState (run ?S emptyDb exDialed) (7 :: nat) AND StateMask ?S sfSelected = 0"
    unfolding d using c k by blast
  then have b': "(36 :: uint64) AND StateMask ?S sfSelected = 0"
    unfolding ex_run_dialed .
  show ?thesis
    using ex_run_trusted s a k ex_run_dialed b' by blast
qed

end
